theory Spec2Isabelle
  imports Main "HOL-Library.Sublist"
begin

section \<open>Python library functions used by the module\<close>

text \<open>
  \<^verbatim>\<open>str.upper\<close> and \<^verbatim>\<open>str.lower\<close> of Python 2 byte strings: the letters
  \<^verbatim>\<open>a..z\<close> (codes 97..122) and \<^verbatim>\<open>A..Z\<close> (codes 65..90) are exchanged, every
  other character is kept.
\<close>

definition char_upper :: "char \<Rightarrow> char" where
  "char_upper c =
     (let n = (of_char c :: nat) in if 97 \<le> n \<and> n \<le> 122 then char_of (n - 32) else c)"

definition char_lower :: "char \<Rightarrow> char" where
  "char_lower c =
     (let n = (of_char c :: nat) in if 65 \<le> n \<and> n \<le> 90 then char_of (n + 32) else c)"

definition upper :: "string \<Rightarrow> string" where
  "upper s = map char_upper s"

definition lower :: "string \<Rightarrow> string" where
  "lower s = map char_lower s"

text \<open>
  \<^verbatim>\<open>itertools.combinations(iterable, r)\<close>: the subsequences of length \<open>r\<close>, chosen by
  position, in lexicographic order of the positions. An \<open>r\<close> larger than the length
  gives no combination.
\<close>

fun combinations :: "'a list \<Rightarrow> nat \<Rightarrow> 'a list list" where
  "combinations xs 0 = [[]]"
| "combinations [] (Suc r) = []"
| "combinations (x # xs) (Suc r) =
     map ((#) x) (combinations xs r) @ combinations xs (Suc r)"

text \<open>\<^verbatim>\<open>str\<close> of an integer: its decimal numeral.\<close>

fun str_nat :: "nat \<Rightarrow> string" where
  "str_nat n =
     (if n < 10 then [char_of (48 + n)]
      else str_nat (n div 10) @ [char_of (48 + n mod 10)])"

definition str_int :: "int \<Rightarrow> string" where
  "str_int i = (if i < 0 then CHR ''-'' # str_nat (nat (- i)) else str_nat (nat i))"

text \<open>\<^verbatim>\<open>os.path.basename\<close> and \<^verbatim>\<open>os.path.join\<close> of two components (posixpath).\<close>

definition basename :: "string \<Rightarrow> string" where
  "basename p = rev (takeWhile (\<lambda>c. c \<noteq> CHR ''/'') (rev p))"

definition path_join :: "string \<Rightarrow> string \<Rightarrow> string" where
  "path_join a b =
     (if b \<noteq> [] \<and> hd b = CHR ''/'' then b
      else if a = [] \<or> last a = CHR ''/'' then a @ b
      else a @ ''/'' @ b)"

section \<open>Data model\<close>

datatype error =
  OSError | NoSectionError | NoOptionError | IOError | CalledProcessError | OtherError string

text \<open>The value handed to \<^verbatim>\<open>add_opt\<close>: a string or a (GPS time) number.\<close>

datatype opt_value = StrVal string | IntVal int

text \<open>
  Modelled from the spec: the class \<^verbatim>\<open>Executable\<close> of \<^verbatim>\<open>pycbc.workflow.core\<close> is not
  part of the sources. The spec describes it as the job descriptor that binds a job name
  to a program, a resource profile and the participating detectors, built once per call
  from \<^verbatim>\<open>(config, name, universe, detectors, outdir, tags)\<close>. The module reads its
  \<^verbatim>\<open>ifo_list\<close> (the detector list) and its \<^verbatim>\<open>ifo_string\<close> (the full detector-set
  string, the detector identifiers concatenated).
\<close>

record wf_executable =
  exe_name :: string
  universe :: string
  ifo_list :: "string list"
  ifo_string :: string
  exe_out_dir :: string
  exe_tags :: "string list"

text \<open>
  Modelled from the spec: the class \<^verbatim>\<open>File\<close> of \<^verbatim>\<open>pycbc.workflow.core\<close> is not part
  of the sources. An input file is a produced-artifact record with a back-reference to
  the node that produced it; the module reads \<^verbatim>\<open>f.node._dax_node\<close> only, which is kept
  here as the identity of the producing node's DAX job.
\<close>

record wf_file =
  node :: nat
  file_name :: string

text \<open>
  Modelled from the spec: the class \<^verbatim>\<open>Node\<close> of \<^verbatim>\<open>pycbc.workflow.core\<close> is not part
  of the sources. A node is one invocation of an executable with the options attached by
  \<^verbatim>\<open>add_opt(flag, value)\<close>, in the order of the calls; it owns the records of the files
  it declares as produced (none when it is built) and its own DAX job \<^verbatim>\<open>_dax_node\<close>,
  whose object identity is a number here.
\<close>

record wf_node =
  executable :: wf_executable
  options :: "(string \<times> opt_value option) list"
  output_files :: "wf_file list"
  dax_node :: nat

text \<open>\<^verbatim>\<open>dax.Dependency(parent=..., child=...)\<close>: an edge between two DAX jobs.\<close>

record dependency =
  parent :: nat
  child :: nat

text \<open>
  The standard-library configuration parser: sections of options. \<^verbatim>\<open>get\<close> raises when
  the section or the option is missing, \<^verbatim>\<open>set\<close> when the section is missing.
\<close>

type_synonym config = "string \<rightharpoonup> (string \<rightharpoonup> string)"

definition cp_get :: "config \<Rightarrow> string \<Rightarrow> string \<Rightarrow> error + string" where
  "cp_get c section opt =
     (case c section of
        None \<Rightarrow> Inl NoSectionError
      | Some m \<Rightarrow> (case m opt of None \<Rightarrow> Inl NoOptionError | Some v \<Rightarrow> Inr v))"

definition cp_set :: "config \<Rightarrow> string \<Rightarrow> string \<Rightarrow> string \<Rightarrow> error + config" where
  "cp_set c section opt v =
     (case c section of
        None \<Rightarrow> Inl NoSectionError
      | Some m \<Rightarrow> Inr (c(section \<mapsto> m(opt \<mapsto> v))))"

text \<open>
  Modelled from the spec: the workflow object and the DAG of the external engine
  (\<^verbatim>\<open>Pegasus.DAX3\<close>) are not part of the sources. The workflow state carries the
  configuration \<^verbatim>\<open>cp\<close>, the detector list \<^verbatim>\<open>ifos\<close>, the analysis window
  \<^verbatim>\<open>analysis_time\<close> and the node and edge collections that \<^verbatim>\<open>add_node\<close> and
  \<^verbatim>\<open>_adag.addDependency\<close> grow: per the spec each call of \<^verbatim>\<open>addDependency\<close> records
  one edge from a producer to a new node. \<open>next_dax_node\<close> is the allocator of the
  object identities of the DAX jobs that \<^verbatim>\<open>Node(...)\<close> creates.
\<close>

record workflow =
  cp :: config
  ifos :: "string list"
  analysis_time :: "int \<times> int"
  nodes :: "wf_node list"
  dependencies :: "dependency list"
  next_dax_node :: nat

definition Executable ::
  "config \<Rightarrow> string \<Rightarrow> string \<Rightarrow> string list \<Rightarrow> string \<Rightarrow> string list \<Rightarrow> wf_executable" where
  "Executable c nm uni detectors out_dir tags =
     \<lparr>exe_name = nm, universe = uni, ifo_list = detectors, ifo_string = concat detectors,
      exe_out_dir = out_dir, exe_tags = tags\<rparr>"

definition Node :: "workflow \<Rightarrow> wf_executable \<Rightarrow> wf_node \<times> workflow" where
  "Node w job =
     (\<lparr>executable = job, options = [], output_files = [], dax_node = next_dax_node w\<rparr>,
      w\<lparr>next_dax_node := Suc (next_dax_node w)\<rparr>)"

definition add_opt :: "wf_node \<Rightarrow> string \<Rightarrow> opt_value option \<Rightarrow> wf_node" where
  "add_opt n opt v = n\<lparr>options := options n @ [(opt, v)]\<rparr>"

definition add_node :: "workflow \<Rightarrow> wf_node \<Rightarrow> workflow" where
  "add_node w n = w\<lparr>nodes := nodes w @ [n]\<rparr>"

definition addDependency :: "workflow \<Rightarrow> dependency \<Rightarrow> workflow" where
  "addDependency w dep = w\<lparr>dependencies := dependencies w @ [dep]\<rparr>"

section \<open>The plot stage-setup routines\<close>

text \<open>
  Each routine takes the workflow state and returns the file list together with the
  updated state. A \<^verbatim>\<open>for\<close> loop over a list is a \<open>fold\<close> of its body.
\<close>

definition setup_plotinspiral ::
  "workflow \<Rightarrow> wf_file list \<Rightarrow> string \<Rightarrow> string \<Rightarrow> string \<Rightarrow> string list
     \<Rightarrow> wf_file list \<times> workflow" where
  "setup_plotinspiral workflow input_files cache_filename inspiral_cachepattern output_dir tags =
     (let plot_files = [];
          plotinspiral_job = Executable (cp workflow) ''plotinspiral'' ''vanilla''
                               (ifos workflow) output_dir tags;
          workflow = fold (\<lambda>tag. fold (\<lambda>ifo workflow.
            let (node, workflow) = Node workflow plotinspiral_job;
                node = add_opt node ''--gps-start-time''
                         (Some (IntVal (fst (analysis_time workflow))));
                node = add_opt node ''--gps-end-time''
                         (Some (IntVal (snd (analysis_time workflow))));
                node = add_opt node ''--cache-file'' (Some (StrVal cache_filename));
                node = add_opt node ''--ifo-times'' (Some (StrVal ifo));
                node = add_opt node ''--ifo-tag'' (Some (StrVal (''FIRST_'' @ ifo)));
                node = add_opt node ''--user-tag''
                         (Some (StrVal (upper tag @ ''_SUMMARY_PLOTS'')));
                node = add_opt node ''--output-path'' (Some (StrVal output_dir));
                node = add_opt node ''--trig-pattern'' (Some (StrVal inspiral_cachepattern));
                node = add_opt node ''--enable-output'' None;
                workflow = add_node workflow node
            in fold (\<lambda>f workflow.
                 addDependency workflow \<lparr>parent = wf_file.node f, child = dax_node node\<rparr>)
                 input_files workflow)
            (ifo_list plotinspiral_job)) tags workflow
      in (plot_files, workflow))"

definition setup_plotnumtemplates ::
  "workflow \<Rightarrow> wf_file list \<Rightarrow> string \<Rightarrow> string \<Rightarrow> string \<Rightarrow> string list
     \<Rightarrow> wf_file list \<times> workflow" where
  "setup_plotnumtemplates workflow input_files cache_filename tmpltbank_cachepattern output_dir
       tags =
     (let plot_files = [];
          plotnumtemplates_job = Executable (cp workflow) ''plotnumtemplates'' ''vanilla''
                                   (ifos workflow) output_dir tags;
          workflow = fold (\<lambda>tag workflow.
            let (node, workflow) = Node workflow plotnumtemplates_job;
                node = add_opt node ''--gps-start-time''
                         (Some (IntVal (fst (analysis_time workflow))));
                node = add_opt node ''--gps-end-time''
                         (Some (IntVal (snd (analysis_time workflow))));
                node = add_opt node ''--cache-file'' (Some (StrVal cache_filename));
                node = add_opt node ''--ifo-times''
                         (Some (StrVal (ifo_string (executable node))));
                node = add_opt node ''--user-tag''
                         (Some (StrVal (upper tag @ ''_SUMMARY_PLOTS'')));
                node = add_opt node ''--output-path'' (Some (StrVal output_dir));
                node = add_opt node ''--bank-pattern'' (Some (StrVal tmpltbank_cachepattern));
                node = add_opt node ''--enable-output'' None;
                workflow = add_node workflow node
            in fold (\<lambda>f workflow.
                 addDependency workflow \<lparr>parent = wf_file.node f, child = dax_node node\<rparr>)
                 input_files workflow)
            tags workflow
      in (plot_files, workflow))"

text \<open>
  The detector combinations of \<^verbatim>\<open>setup_plotthinca\<close>: for \<open>n\<close> in
  \<^verbatim>\<open>xrange(len(ifo_list)+1)\<close>, every combination of size \<open>n+2\<close> is appended.
\<close>

definition ifo_combos :: "string list \<Rightarrow> string list list" where
  "ifo_combos detectors =
     fold (\<lambda>n ifo_combos.
             fold (\<lambda>ifo_list ifo_combos. ifo_combos @ [ifo_list])
               (combinations detectors (n + 2)) ifo_combos)
       [0 ..< length detectors + 1] []"

definition setup_plotthinca ::
  "workflow \<Rightarrow> wf_file list \<Rightarrow> string \<Rightarrow> string \<Rightarrow> string \<Rightarrow> string \<Rightarrow> string list
     \<Rightarrow> wf_file list \<times> workflow" where
  "setup_plotthinca workflow input_files cache_filename coinc_cachepattern slide_cachepattern
       output_dir tags =
     (let plot_files = [];
          plotthinca_job = Executable (cp workflow) ''plotthinca'' ''vanilla''
                             (ifos workflow) output_dir tags;
          ifo_combos = ifo_combos (ifo_list plotthinca_job);
          workflow = fold (\<lambda>tag. fold (\<lambda>ifo_list workflow.
            let ifo_string = concat ifo_list;
                (node, workflow) = Node workflow plotthinca_job;
                node = add_opt node ''--gps-start-time''
                         (Some (IntVal (fst (analysis_time workflow))));
                node = add_opt node ''--gps-end-time''
                         (Some (IntVal (snd (analysis_time workflow))));
                node = add_opt node ''--cache-file'' (Some (StrVal cache_filename));
                node = add_opt node ''--ifo-times'' (Some (StrVal ifo_string));
                node = add_opt node ''--ifo-tag'' (Some (StrVal (''SECOND_'' @ ifo_string)));
                node = fold (\<lambda>ifo node.
                         add_opt node (''--'' @ lower ifo @ ''-triggers'') (Some (StrVal '''')))
                         ifo_list node;
                node = add_opt node ''--user-tag''
                         (Some (StrVal (upper tag @ ''_SUMMARY_PLOTS'')));
                node = add_opt node ''--output-path'' (Some (StrVal output_dir));
                node = add_opt node ''--coinc-pattern'' (Some (StrVal coinc_cachepattern));
                node = add_opt node ''--slide-pattern'' (Some (StrVal slide_cachepattern));
                node = add_opt node ''--enable-output'' None;
                workflow = add_node workflow node
            in fold (\<lambda>f workflow.
                 addDependency workflow \<lparr>parent = wf_file.node f, child = dax_node node\<rparr>)
                 input_files workflow)
            ifo_combos) tags workflow
      in (plot_files, workflow))"

definition setup_plotinspiralrange ::
  "workflow \<Rightarrow> wf_file list \<Rightarrow> string \<Rightarrow> string \<Rightarrow> string \<Rightarrow> string \<Rightarrow> string list
     \<Rightarrow> wf_file list \<times> workflow" where
  "setup_plotinspiralrange workflow input_files cache_filename tmpltbank_cachepattern
       inspiral_cachepattern output_dir tags =
     (let plot_files = [];
          plotinspiralrange_job = Executable (cp workflow) ''plotinspiralrange'' ''vanilla''
                                    (ifos workflow) output_dir tags;
          workflow = fold (\<lambda>tag workflow.
            let (node, workflow) = Node workflow plotinspiralrange_job;
                node = add_opt node ''--gps-start-time''
                         (Some (IntVal (fst (analysis_time workflow))));
                node = add_opt node ''--gps-end-time''
                         (Some (IntVal (snd (analysis_time workflow))));
                node = add_opt node ''--cache-file'' (Some (StrVal cache_filename));
                node = add_opt node ''--ifo-times''
                         (Some (StrVal (ifo_string (executable node))));
                node = add_opt node ''--user-tag''
                         (Some (StrVal (upper tag @ ''_SUMMARY_PLOTS'')));
                node = add_opt node ''--output-path'' (Some (StrVal output_dir));
                node = add_opt node ''--bank-pattern'' (Some (StrVal tmpltbank_cachepattern));
                node = add_opt node ''--trig-pattern'' (Some (StrVal inspiral_cachepattern));
                node = add_opt node ''--enable-output'' None;
                workflow = add_node workflow node
            in fold (\<lambda>f workflow.
                 addDependency workflow \<lparr>parent = wf_file.node f, child = dax_node node\<rparr>)
                 input_files workflow)
            tags workflow
      in (plot_files, workflow))"

section \<open>Filesystem and external collaborators\<close>

text \<open>
  The filesystem is the set of the paths that exist. \<^verbatim>\<open>os.makedirs\<close> raises when the
  path exists already or when the system does not let the directory be made; otherwise
  the directory and its missing parents exist afterwards.

  The collaborators whose code is outside the sources are parameters of the model, kept
  in one environment: whether the system permits a directory creation; the tagged option
  lookup \<^verbatim>\<open>get_opt_tags\<close> of the workflow configuration; the network fetch
  \<^verbatim>\<open>urllib.urlretrieve\<close> and the subprocess call \<^verbatim>\<open>make_external_call\<close>, each
  returning the error it raises (if any) and the filesystem it leaves; and the storage
  path that \<^verbatim>\<open>File(...)\<close> computes.
\<close>

type_synonym filesystem = "string set"

record env =
  mkdir_permitted :: "string \<Rightarrow> filesystem \<Rightarrow> bool"
  get_opt_tags :: "config \<Rightarrow> string \<Rightarrow> string \<Rightarrow> string list \<Rightarrow> error + string"
  urlretrieve :: "string \<Rightarrow> string \<Rightarrow> filesystem \<Rightarrow> error option \<times> filesystem"
  make_external_call ::
    "string list \<Rightarrow> string \<Rightarrow> string \<Rightarrow> filesystem \<Rightarrow> error option \<times> filesystem"
  storage_path :: "string \<Rightarrow> string \<Rightarrow> int \<times> int \<Rightarrow> string \<Rightarrow> string \<Rightarrow> string"

definition path_exists :: "filesystem \<Rightarrow> string \<Rightarrow> bool" where
  "path_exists fs p = (p \<in> fs)"

definition parent_dirs :: "string \<Rightarrow> string list" where
  "parent_dirs p = map (\<lambda>i. take i p) (filter (\<lambda>i. p ! i = CHR ''/'') [1 ..< length p])"

definition makedirs :: "env \<Rightarrow> filesystem \<Rightarrow> string \<Rightarrow> error + filesystem" where
  "makedirs e fs name =
     (if path_exists fs name \<or> \<not> mkdir_permitted e name fs then Inl OSError
      else Inr (fs \<union> set (parent_dirs name) \<union> {name}))"

text \<open>
  The result of a routine that can raise: the value it returns or the error it raises,
  each with the workflow state and the filesystem as they are at that moment (the
  routines mutate both in place).
\<close>

datatype 'a result =
  Return 'a workflow filesystem
| Raise error workflow filesystem

text \<open>The value that \<^verbatim>\<open>str\<close> gives for an element of a command line.\<close>

fun str :: "opt_value \<Rightarrow> string" where
  "str (StrVal s) = s"
| "str (IntVal i) = str_int i"

section \<open>The dispatcher and the hardware-injection page\<close>

text \<open>
  These routines touch the filesystem and can raise. The directory creation
  \<^verbatim>\<open>if not os.path.exists(d): os.makedirs(d)\<close> is the conditional on
  \<open>path_exists\<close> below; an error of a step ends the routine with \<open>Raise\<close> and the
  state reached so far. The \<^verbatim>\<open>logging.info\<close> calls change nothing and are left out.
  In the dispatcher the call of \<^verbatim>\<open>setup_plotthinca\<close> and the concatenation of its
  list are commented out in the source, so they are absent here.
\<close>

definition setup_summary_plots ::
  "env \<Rightarrow> workflow \<Rightarrow> filesystem \<Rightarrow> wf_file list \<Rightarrow> string \<Rightarrow> string \<Rightarrow> string \<Rightarrow> string
     \<Rightarrow> string list \<Rightarrow> wf_file list result" where
  "setup_summary_plots e workflow fs input_files cache_filename tmpltbank_cachepattern
       inspiral_cachepattern output_dir tags =
     (let plot_files = [] in
      case (if \<not> path_exists fs output_dir then makedirs e fs output_dir else Inr fs) of
        Inl err \<Rightarrow> Raise err workflow fs
      | Inr fs \<Rightarrow>
          let (plotinspiral_files, workflow) =
                setup_plotinspiral workflow input_files cache_filename
                  inspiral_cachepattern output_dir tags;
              (plotinspiralrange_files, workflow) =
                setup_plotinspiralrange workflow input_files cache_filename
                  tmpltbank_cachepattern inspiral_cachepattern output_dir tags;
              (plotnumtemplates_files, workflow) =
                setup_plotnumtemplates workflow input_files cache_filename
                  tmpltbank_cachepattern output_dir tags;
              plot_files = plot_files @ plotinspiral_files;
              plot_files = plot_files @ plotinspiralrange_files;
              plot_files = plot_files @ plotnumtemplates_files
          in Return plot_files workflow fs)"

definition get_hardware_injection_segment_files ::
  "env \<Rightarrow> workflow \<Rightarrow> filesystem \<Rightarrow> string \<Rightarrow> string \<Rightarrow> unit result" where
  "get_hardware_injection_segment_files e workflow fs output_dir hwinjDefPath =
     (let log_dir = path_join output_dir ''logs'' in
      case (if \<not> path_exists fs log_dir then makedirs e fs log_dir else Inr fs) of
        Inl err \<Rightarrow> Raise err workflow fs
      | Inr fs \<Rightarrow>
     (case cp_get (cp workflow) ''executables'' ''hardware_injection_page'' of
        Inl err \<Rightarrow> Raise err workflow fs
      | Inr exe_path \<Rightarrow>
     (case cp_get (cp workflow) ''workflow-segments'' ''segments-database-url'' of
        Inl err \<Rightarrow> Raise err workflow fs
      | Inr segment_db \<Rightarrow>
          let hwinjsegFindCall =
                [StrVal exe_path,
                 StrVal ''--gps-start-time'', IntVal (fst (analysis_time workflow)),
                 StrVal ''--gps-end-time'', IntVal (snd (analysis_time workflow)),
                 StrVal ''--segment-db'', StrVal segment_db,
                 StrVal ''--segment-dir'', StrVal output_dir,
                 StrVal ''--source-xml'', StrVal hwinjDefPath,
                 StrVal ''--get-segment-list''];
              hwinjsegFindCall =
                fold (\<lambda>ifo call. call @ [StrVal (''--'' @ lower ifo @ ''-injections'')])
                  (ifos workflow) hwinjsegFindCall;
              hwinjsegFindCall = map str hwinjsegFindCall
          in (case make_external_call e hwinjsegFindCall log_dir ''hwinjseg-call'' fs of
                (Some err, fs) \<Rightarrow> Raise err workflow fs
              | (None, fs) \<Rightarrow> Return () workflow fs))))"

definition setup_hardware_injection_page ::
  "env \<Rightarrow> workflow \<Rightarrow> filesystem \<Rightarrow> wf_file list \<Rightarrow> string \<Rightarrow> string \<Rightarrow> string
     \<Rightarrow> string list \<Rightarrow> wf_file list result" where
  "setup_hardware_injection_page e workflow fs input_files cache_filename
       inspiral_cachepattern output_dir tags =
     (let out_files = [] in
      case (if \<not> path_exists fs output_dir then makedirs e fs output_dir else Inr fs) of
        Inl err \<Rightarrow> Raise err workflow fs
      | Inr fs \<Rightarrow>
     (let hwinjpage_job = Executable (cp workflow) ''hardware_injection_page'' ''vanilla''
                            (ifos workflow) output_dir tags in
      case get_opt_tags e (cp workflow) ''workflow-hardware-injections''
             ''hwinj-definer-url'' tags of
        Inl err \<Rightarrow> Raise err workflow fs
      | Inr hwinjDefUrl \<Rightarrow>
     (let hwinjDefBaseName = basename hwinjDefUrl;
          hwinjDefNewPath = path_join output_dir hwinjDefBaseName in
      case urlretrieve e hwinjDefUrl hwinjDefNewPath fs of
        (Some err, fs) \<Rightarrow> Raise err workflow fs
      | (None, fs) \<Rightarrow>
     (case cp_set (cp workflow) ''workflow-hardware-injections'' ''hwinj-definer-file''
             hwinjDefNewPath of
        Inl err \<Rightarrow> Raise err workflow fs
      | Inr c \<Rightarrow>
     (case get_hardware_injection_segment_files e (workflow\<lparr>cp := c\<rparr>) fs output_dir
             hwinjDefNewPath of
        Raise err workflow fs \<Rightarrow> Raise err workflow fs
      | Return u workflow fs \<Rightarrow>
          let (node, workflow) = Node workflow hwinjpage_job;
              node = add_opt node ''--gps-start-time''
                       (Some (IntVal (fst (analysis_time workflow))));
              node = add_opt node ''--gps-end-time''
                       (Some (IntVal (snd (analysis_time workflow))));
              node = add_opt node ''--source-xml'' (Some (StrVal hwinjDefNewPath));
              node = add_opt node ''--segment-dir'' (Some (StrVal output_dir));
              node = add_opt node ''--cache-file'' (Some (StrVal cache_filename));
              node = add_opt node ''--cache-pattern'' (Some (StrVal inspiral_cachepattern));
              node = add_opt node ''--analyze-injections'' (Some (StrVal ''''));
              node = fold (\<lambda>ifo node.
                       add_opt node (''--'' @ lower ifo @ ''-injections'') (Some (StrVal '''')))
                       (ifos workflow) node;
              outfile_storage_path =
                storage_path e (ifo_string (executable node)) ''HWINJ_SUMMARY''
                  (analysis_time workflow) ''html'' output_dir;
              node = add_opt node ''--outfile'' (Some (StrVal outfile_storage_path));
              workflow = add_node workflow node;
              workflow = fold (\<lambda>f workflow.
                  addDependency workflow \<lparr>parent = wf_file.node f, child = dax_node node\<rparr>)
                  input_files workflow;
              out_files = out_files @ output_files node
          in Return out_files workflow fs)))))"

section \<open>Closed forms of the stages\<close>

text \<open>
  The edges that a stage adds when it creates \<open>n\<close> nodes with the identities
  \<open>k, k+1, ...\<close>: for each node in turn, one edge from the producer of each input file.
  \<open>stage_result\<close> is the workflow state after such a stage, and the functions
  \<open>plotinspiral_node\<close> etc. are the nodes the stages build, written out option by
  option; the lemmas below prove that the routines compute exactly these.
\<close>

definition stage_edges :: "wf_file list \<Rightarrow> nat \<Rightarrow> nat \<Rightarrow> dependency list" where
  "stage_edges input_files k n =
     concat (map (\<lambda>i. map (\<lambda>f. \<lparr>parent = wf_file.node f, child = i\<rparr>) input_files) [k ..< k + n])"

definition stage_result ::
  "workflow \<Rightarrow> wf_file list \<Rightarrow> (nat \<Rightarrow> 'a \<Rightarrow> wf_node) \<Rightarrow> 'a list \<Rightarrow> workflow" where
  "stage_result w input_files mk xs =
     w\<lparr>next_dax_node := next_dax_node w + length xs,
       nodes := nodes w @ map (\<lambda>(i, x). mk i x) (enumerate (next_dax_node w) xs),
       dependencies := dependencies w @ stage_edges input_files (next_dax_node w) (length xs)\<rparr>"

definition plotinspiral_node ::
  "wf_executable \<Rightarrow> int \<times> int \<Rightarrow> string \<Rightarrow> string \<Rightarrow> string \<Rightarrow> nat \<Rightarrow> string \<times> string \<Rightarrow> wf_node" where
  "plotinspiral_node job window cache_filename inspiral_cachepattern output_dir i x =
     \<lparr>executable = job,
      options =
        [(''--gps-start-time'', Some (IntVal (fst window))),
         (''--gps-end-time'', Some (IntVal (snd window))),
         (''--cache-file'', Some (StrVal cache_filename)),
         (''--ifo-times'', Some (StrVal (snd x))),
         (''--ifo-tag'', Some (StrVal (''FIRST_'' @ snd x))),
         (''--user-tag'', Some (StrVal (upper (fst x) @ ''_SUMMARY_PLOTS''))),
         (''--output-path'', Some (StrVal output_dir)),
         (''--trig-pattern'', Some (StrVal inspiral_cachepattern)),
         (''--enable-output'', None)],
      output_files = [], dax_node = i\<rparr>"

definition plotnumtemplates_node ::
  "wf_executable \<Rightarrow> int \<times> int \<Rightarrow> string \<Rightarrow> string \<Rightarrow> string \<Rightarrow> nat \<Rightarrow> string \<Rightarrow> wf_node" where
  "plotnumtemplates_node job window cache_filename tmpltbank_cachepattern output_dir i tag =
     \<lparr>executable = job,
      options =
        [(''--gps-start-time'', Some (IntVal (fst window))),
         (''--gps-end-time'', Some (IntVal (snd window))),
         (''--cache-file'', Some (StrVal cache_filename)),
         (''--ifo-times'', Some (StrVal (ifo_string job))),
         (''--user-tag'', Some (StrVal (upper tag @ ''_SUMMARY_PLOTS''))),
         (''--output-path'', Some (StrVal output_dir)),
         (''--bank-pattern'', Some (StrVal tmpltbank_cachepattern)),
         (''--enable-output'', None)],
      output_files = [], dax_node = i\<rparr>"

definition plotinspiralrange_node ::
  "wf_executable \<Rightarrow> int \<times> int \<Rightarrow> string \<Rightarrow> string \<Rightarrow> string \<Rightarrow> string \<Rightarrow> nat \<Rightarrow> string \<Rightarrow> wf_node" where
  "plotinspiralrange_node job window cache_filename tmpltbank_cachepattern inspiral_cachepattern
       output_dir i tag =
     \<lparr>executable = job,
      options =
        [(''--gps-start-time'', Some (IntVal (fst window))),
         (''--gps-end-time'', Some (IntVal (snd window))),
         (''--cache-file'', Some (StrVal cache_filename)),
         (''--ifo-times'', Some (StrVal (ifo_string job))),
         (''--user-tag'', Some (StrVal (upper tag @ ''_SUMMARY_PLOTS''))),
         (''--output-path'', Some (StrVal output_dir)),
         (''--bank-pattern'', Some (StrVal tmpltbank_cachepattern)),
         (''--trig-pattern'', Some (StrVal inspiral_cachepattern)),
         (''--enable-output'', None)],
      output_files = [], dax_node = i\<rparr>"

definition plotthinca_node ::
  "wf_executable \<Rightarrow> int \<times> int \<Rightarrow> string \<Rightarrow> string \<Rightarrow> string \<Rightarrow> string \<Rightarrow> nat
     \<Rightarrow> string \<times> string list \<Rightarrow> wf_node" where
  "plotthinca_node job window cache_filename coinc_cachepattern slide_cachepattern output_dir i x =
     \<lparr>executable = job,
      options =
        [(''--gps-start-time'', Some (IntVal (fst window))),
         (''--gps-end-time'', Some (IntVal (snd window))),
         (''--cache-file'', Some (StrVal cache_filename)),
         (''--ifo-times'', Some (StrVal (concat (snd x)))),
         (''--ifo-tag'', Some (StrVal (''SECOND_'' @ concat (snd x))))]
        @ map (\<lambda>ifo. (''--'' @ lower ifo @ ''-triggers'', Some (StrVal ''''))) (snd x)
        @ [(''--user-tag'', Some (StrVal (upper (fst x) @ ''_SUMMARY_PLOTS''))),
           (''--output-path'', Some (StrVal output_dir)),
           (''--coinc-pattern'', Some (StrVal coinc_cachepattern)),
           (''--slide-pattern'', Some (StrVal slide_cachepattern)),
           (''--enable-output'', None)],
      output_files = [], dax_node = i\<rparr>"

text \<open>
  The node that \<^verbatim>\<open>setup_hardware_injection_page\<close> builds, written out option by
  option.
\<close>

definition hwinjpage_node ::
  "wf_executable \<Rightarrow> int \<times> int \<Rightarrow> string \<Rightarrow> string \<Rightarrow> string \<Rightarrow> string \<Rightarrow> string list
     \<Rightarrow> string \<Rightarrow> nat \<Rightarrow> wf_node" where
  "hwinjpage_node job window hwinjDefNewPath output_dir cache_filename inspiral_cachepattern
       detectors outfile_storage_path i =
     \<lparr>executable = job,
      options =
        [(''--gps-start-time'', Some (IntVal (fst window))),
         (''--gps-end-time'', Some (IntVal (snd window))),
         (''--source-xml'', Some (StrVal hwinjDefNewPath)),
         (''--segment-dir'', Some (StrVal output_dir)),
         (''--cache-file'', Some (StrVal cache_filename)),
         (''--cache-pattern'', Some (StrVal inspiral_cachepattern)),
         (''--analyze-injections'', Some (StrVal ''''))]
        @ map (\<lambda>ifo. (''--'' @ lower ifo @ ''-injections'', Some (StrVal ''''))) detectors
        @ [(''--outfile'', Some (StrVal outfile_storage_path))],
      output_files = [], dax_node = i\<rparr>"

text \<open>
  The command line that \<^verbatim>\<open>get_hardware_injection_segment_files\<close> hands to
  \<^verbatim>\<open>make_external_call\<close>, written out: the list of the source, one
  \<^verbatim>\<open>--<ifo.lower()>-injections\<close> flag appended per detector, every element passed
  through \<^verbatim>\<open>str\<close>. The executable path and the segment database are the two
  configuration values the routine reads.
\<close>

definition hwinjsegFindCall ::
  "workflow \<Rightarrow> string \<Rightarrow> string \<Rightarrow> string \<Rightarrow> string \<Rightarrow> string list" where
  "hwinjsegFindCall workflow output_dir hwinjDefPath exe_path segment_db =
     map str
       (fold (\<lambda>ifo call. call @ [StrVal (''--'' @ lower ifo @ ''-injections'')])
          (ifos workflow)
          [StrVal exe_path,
           StrVal ''--gps-start-time'', IntVal (fst (analysis_time workflow)),
           StrVal ''--gps-end-time'', IntVal (snd (analysis_time workflow)),
           StrVal ''--segment-db'', StrVal segment_db,
           StrVal ''--segment-dir'', StrVal output_dir,
           StrVal ''--source-xml'', StrVal hwinjDefPath,
           StrVal ''--get-segment-list''])"

section \<open>Observations on a call\<close>

text \<open>What a call created: the nodes and the edges appended to the workflow state.\<close>

definition nodes_created :: "workflow \<Rightarrow> workflow \<Rightarrow> wf_node list" where
  "nodes_created w w' = drop (length (nodes w)) (nodes w')"

definition edges_added :: "workflow \<Rightarrow> workflow \<Rightarrow> dependency list" where
  "edges_added w w' = drop (length (dependencies w)) (dependencies w')"

text \<open>
  The parts of the result of a routine that can raise: the returned value (if it
  returned), the error (if it raised), and the workflow state and filesystem it left.
\<close>

definition return_value :: "'a result \<Rightarrow> 'a option" where
  "return_value r = (case r of Return x w fs \<Rightarrow> Some x | Raise err w fs \<Rightarrow> None)"

definition raised :: "'a result \<Rightarrow> error option" where
  "raised r = (case r of Return x w fs \<Rightarrow> None | Raise err w fs \<Rightarrow> Some err)"

definition final_workflow :: "'a result \<Rightarrow> workflow" where
  "final_workflow r = (case r of Return x w fs \<Rightarrow> w | Raise err w fs \<Rightarrow> w)"

definition final_filesystem :: "'a result \<Rightarrow> filesystem" where
  "final_filesystem r = (case r of Return x w fs \<Rightarrow> fs | Raise err w fs \<Rightarrow> fs)"

text \<open>The values attached to a node under a flag, and the flags of a node.\<close>

definition opt_values :: "string \<Rightarrow> wf_node \<Rightarrow> opt_value option list" where
  "opt_values flag n = map snd (filter (\<lambda>p. fst p = flag) (options n))"

definition flags :: "wf_node \<Rightarrow> string list" where
  "flags n = map fst (options n)"

text \<open>
  The predicate of the dependency invariant: the call only appended to the node and edge
  collections, every input file's producer has an edge to every node the call created,
  and at least \<open>len(input_files)\<close> edges were added per created node.
\<close>

definition inputs_linked :: "wf_file list \<Rightarrow> workflow \<Rightarrow> workflow \<Rightarrow> bool" where
  "inputs_linked input_files w w' =
     (nodes w' = nodes w @ nodes_created w w' \<and>
      dependencies w' = dependencies w @ edges_added w w' \<and>
      (\<forall>f \<in> set input_files. \<forall>n \<in> set (nodes_created w w').
         \<lparr>parent = wf_file.node f, child = dax_node n\<rparr> \<in> set (edges_added w w')) \<and>
      length input_files * length (nodes_created w w') \<le> length (edges_added w w'))"

section \<open>Concrete inputs\<close>

text \<open>
  A configuration, a two-detector workflow, two input files and an environment in which
  every external call succeeds (the tagged lookup reads the untagged section), used to
  run the routines on concrete inputs.
\<close>

definition example_config :: config where
  "example_config =
     [''executables'' \<mapsto> [''hardware_injection_page'' \<mapsto> ''/usr/bin/hwinj_page''],
      ''workflow-segments'' \<mapsto> [''segments-database-url'' \<mapsto> ''https://segdb''],
      ''workflow-hardware-injections'' \<mapsto> [''hwinj-definer-url'' \<mapsto> ''http://host/hwinj.xml'']]"

definition example_workflow :: workflow where
  "example_workflow =
     \<lparr>cp = example_config, ifos = [''H1'', ''L1''], analysis_time = (1000, 2000),
      nodes = [], dependencies = [], next_dax_node = 5\<rparr>"

definition example_inputs :: "wf_file list" where
  "example_inputs = [\<lparr>node = 1, file_name = ''a.xml''\<rparr>, \<lparr>node = 2, file_name = ''b.xml''\<rparr>]"

definition example_env :: env where
  "example_env =
     \<lparr>mkdir_permitted = (\<lambda>name fs. True),
      get_opt_tags = (\<lambda>c section opt tags. cp_get c section opt),
      urlretrieve = (\<lambda>url path fs. (None, insert path fs)),
      make_external_call = (\<lambda>call out_dir out_basename fs. (None, fs)),
      storage_path = (\<lambda>ifo description segment extension directory.
                        path_join directory (ifo @ ''-'' @ description @ ''.'' @ extension))\<rparr>"

text \<open>
  Environments in which the definer fetch fails, the segment-query call fails, and the
  system permits no directory creation.
\<close>

definition fetch_fails_env :: env where
  "fetch_fails_env = example_env\<lparr>urlretrieve := (\<lambda>url path fs. (Some IOError, fs))\<rparr>"

definition call_fails_env :: env where
  "call_fails_env =
     example_env\<lparr>make_external_call := (\<lambda>call out_dir out_basename fs. (Some CalledProcessError, fs))\<rparr>"

definition mkdir_denied_env :: env where
  "mkdir_denied_env = example_env\<lparr>mkdir_permitted := (\<lambda>name fs. False)\<rparr>"

text \<open>
  A second workflow with the same two detectors as the example, in every other respect
  different: another analysis window, a node and an edge already registered.
\<close>

definition busy_workflow :: workflow where
  "busy_workflow =
     \<lparr>cp = Map.empty, ifos = [''H1'', ''L1''], analysis_time = (7, 9),
      nodes = [\<lparr>executable = Executable Map.empty ''inspiral'' ''vanilla'' [''H1''] ''out'' [],
                options = [], output_files = [], dax_node = 40\<rparr>],
      dependencies = [\<lparr>parent = 3, child = 40\<rparr>], next_dax_node = 41\<rparr>"

section \<open>The routines compute the closed forms\<close>

lemma fold_addDependency:
  "fold (\<lambda>f w. addDependency w \<lparr>parent = wf_file.node f, child = c\<rparr>) input_files w =
     w\<lparr>dependencies := dependencies w @ map (\<lambda>f. \<lparr>parent = wf_file.node f, child = c\<rparr>) input_files\<rparr>"
  by (induction input_files arbitrary: w) (simp_all add: addDependency_def)

lemma stage_edges_Suc:
  "stage_edges input_files k (Suc n) =
     map (\<lambda>f. \<lparr>parent = wf_file.node f, child = k\<rparr>) input_files @ stage_edges input_files (Suc k) n"
  by (simp add: stage_edges_def upt_rec)

lemma fold_stage:
  assumes step: "\<And>x w. body x w =
     w\<lparr>next_dax_node := Suc (next_dax_node w),
       nodes := nodes w @ [mk (analysis_time w) (next_dax_node w) x],
       dependencies := dependencies w @
         map (\<lambda>f. \<lparr>parent = wf_file.node f, child = next_dax_node w\<rparr>) input_files\<rparr>"
  shows "fold body xs w = stage_result w input_files (mk (analysis_time w)) xs"
proof (induction xs arbitrary: w)
  case Nil
  show ?case by (simp add: stage_edges_def stage_result_def)
next
  case (Cons x xs)
  show ?case
    by (simp add: Cons.IH) (simp add: step stage_edges_Suc stage_result_def)
qed

lemma fold_product:
  "fold (\<lambda>x. fold (f x) ys) xs = fold (\<lambda>(x, y). f x y) (List.product xs ys)"
  by (induction xs) (simp_all add: fold_map comp_def)

lemma fold_add_opt:
  "fold (\<lambda>x n. add_opt n (g x) (h x)) xs n = n\<lparr>options := options n @ map (\<lambda>x. (g x, h x)) xs\<rparr>"
  by (induction xs arbitrary: n) (simp_all add: add_opt_def)

lemma setup_plotnumtemplates_eq:
  "setup_plotnumtemplates w input_files cache_filename tmpltbank_cachepattern output_dir tags =
     ([], stage_result w input_files
        (plotnumtemplates_node
           (Executable (cp w) ''plotnumtemplates'' ''vanilla'' (ifos w) output_dir tags)
           (analysis_time w) cache_filename tmpltbank_cachepattern output_dir) tags)"
  unfolding setup_plotnumtemplates_def Let_def prod.case
  by (subst fold_stage [where mk = "\<lambda>window. plotnumtemplates_node
           (Executable (cp w) ''plotnumtemplates'' ''vanilla'' (ifos w) output_dir tags)
           window cache_filename tmpltbank_cachepattern output_dir" and input_files = input_files])
     (simp_all add: Node_def add_opt_def add_node_def fold_addDependency plotnumtemplates_node_def)

lemma setup_plotinspiralrange_eq:
  "setup_plotinspiralrange w input_files cache_filename tmpltbank_cachepattern
       inspiral_cachepattern output_dir tags =
     ([], stage_result w input_files
        (plotinspiralrange_node
           (Executable (cp w) ''plotinspiralrange'' ''vanilla'' (ifos w) output_dir tags)
           (analysis_time w) cache_filename tmpltbank_cachepattern inspiral_cachepattern
           output_dir) tags)"
  unfolding setup_plotinspiralrange_def Let_def prod.case
  by (subst fold_stage [where mk = "\<lambda>window. plotinspiralrange_node
           (Executable (cp w) ''plotinspiralrange'' ''vanilla'' (ifos w) output_dir tags)
           window cache_filename tmpltbank_cachepattern inspiral_cachepattern output_dir"
         and input_files = input_files])
     (simp_all add: Node_def add_opt_def add_node_def fold_addDependency plotinspiralrange_node_def)

lemma setup_plotinspiral_eq:
  "setup_plotinspiral w input_files cache_filename inspiral_cachepattern output_dir tags =
     ([], stage_result w input_files
        (plotinspiral_node
           (Executable (cp w) ''plotinspiral'' ''vanilla'' (ifos w) output_dir tags)
           (analysis_time w) cache_filename inspiral_cachepattern output_dir)
        (List.product tags (ifos w)))"
  unfolding setup_plotinspiral_def Let_def prod.case fold_product
  by (subst fold_stage [where mk = "\<lambda>window. plotinspiral_node
           (Executable (cp w) ''plotinspiral'' ''vanilla'' (ifos w) output_dir tags)
           window cache_filename inspiral_cachepattern output_dir" and input_files = input_files])
     (simp_all add: Node_def add_opt_def add_node_def fold_addDependency plotinspiral_node_def
        Executable_def split_def)

lemma setup_plotthinca_eq:
  "setup_plotthinca w input_files cache_filename coinc_cachepattern slide_cachepattern
       output_dir tags =
     ([], stage_result w input_files
        (plotthinca_node
           (Executable (cp w) ''plotthinca'' ''vanilla'' (ifos w) output_dir tags)
           (analysis_time w) cache_filename coinc_cachepattern slide_cachepattern output_dir)
        (List.product tags (ifo_combos (ifos w))))"
  unfolding setup_plotthinca_def Let_def prod.case fold_product fold_add_opt
  by (subst fold_stage [where mk = "\<lambda>window. plotthinca_node
           (Executable (cp w) ''plotthinca'' ''vanilla'' (ifos w) output_dir tags)
           window cache_filename coinc_cachepattern slide_cachepattern output_dir"
         and input_files = input_files])
     (simp_all add: Node_def add_opt_def add_node_def fold_addDependency plotthinca_node_def
        Executable_def split_def)

lemma segment_files_cases:
  "(\<exists>call fs1 fs'. get_hardware_injection_segment_files e w fs output_dir p = Return () w fs' \<and>
      make_external_call e call (path_join output_dir ''logs'') ''hwinjseg-call'' fs1
        = (None, fs')) \<or>
   (\<exists>err fs'. get_hardware_injection_segment_files e w fs output_dir p = Raise err w fs')"
  unfolding get_hardware_injection_segment_files_def Let_def
  by (simp split: sum.split prod.split option.split) blast

lemma hwinj_cases:
  "(\<exists>err w' fs'. setup_hardware_injection_page e w fs input_files cache_filename
        inspiral_cachepattern output_dir tags = Raise err w' fs' \<and>
      nodes w' = nodes w \<and> dependencies w' = dependencies w \<and>
      next_dax_node w' = next_dax_node w) \<or>
   (\<exists>c url fs1 fs2 call fs3 fs'.
      urlretrieve e url (path_join output_dir (basename url)) fs1 = (None, fs2) \<and>
      make_external_call e call (path_join output_dir ''logs'') ''hwinjseg-call'' fs3
        = (None, fs') \<and>
      setup_hardware_injection_page e w fs input_files cache_filename
        inspiral_cachepattern output_dir tags =
      Return [] (stage_result (w\<lparr>cp := c\<rparr>) input_files
        (\<lambda>i u. hwinjpage_node
           (Executable (cp w) ''hardware_injection_page'' ''vanilla'' (ifos w) output_dir tags)
           (analysis_time w) (path_join output_dir (basename url)) output_dir cache_filename
           inspiral_cachepattern (ifos w)
           (storage_path e (concat (ifos w)) ''HWINJ_SUMMARY'' (analysis_time w) ''html''
              output_dir) i) [()]) fs')"
proof -
  let ?R = "setup_hardware_injection_page e w fs input_files cache_filename
        inspiral_cachepattern output_dir tags"
  show ?thesis
  proof (cases "if \<not> path_exists fs output_dir then makedirs e fs output_dir else Inr fs")
    case (Inl err)
    then have "?R = Raise err w fs"
      unfolding setup_hardware_injection_page_def Let_def by simp
    then show ?thesis by simp
  next
    case dir: (Inr fs1)
    show ?thesis
    proof (cases "get_opt_tags e (cp w) ''workflow-hardware-injections''
                    ''hwinj-definer-url'' tags")
      case (Inl err)
      with dir have "?R = Raise err w fs1"
        unfolding setup_hardware_injection_page_def Let_def by simp
      then show ?thesis by simp
    next
      case url: (Inr url)
      let ?p = "path_join output_dir (basename url)"
      obtain r fs2 where fetch: "urlretrieve e url ?p fs1 = (r, fs2)"
        by (cases "urlretrieve e url ?p fs1") simp
      show ?thesis
      proof (cases r)
        case (Some err)
        with dir url fetch have "?R = Raise err w fs2"
          unfolding setup_hardware_injection_page_def Let_def by simp
        then show ?thesis by simp
      next
        case None
        show ?thesis
        proof (cases "cp_set (cp w) ''workflow-hardware-injections'' ''hwinj-definer-file'' ?p")
          case (Inl err)
          with dir url fetch None have "?R = Raise err w fs2"
            unfolding setup_hardware_injection_page_def Let_def by simp
          then show ?thesis by simp
        next
          case conf: (Inr c)
          from segment_files_cases [of e "w\<lparr>cp := c\<rparr>" fs2 output_dir ?p]
          show ?thesis
          proof (elim disjE exE)
            fix call fs0 fs3
            assume seg: "get_hardware_injection_segment_files e (w\<lparr>cp := c\<rparr>) fs2 output_dir ?p
                      = Return () (w\<lparr>cp := c\<rparr>) fs3 \<and>
               make_external_call e call (path_join output_dir ''logs'') ''hwinjseg-call'' fs0
                 = (None, fs3)"
            with dir url fetch None conf
            have "?R = Return [] (stage_result (w\<lparr>cp := c\<rparr>) input_files
        (\<lambda>i u. hwinjpage_node
           (Executable (cp w) ''hardware_injection_page'' ''vanilla'' (ifos w) output_dir tags)
           (analysis_time w) (path_join output_dir (basename url)) output_dir cache_filename
           inspiral_cachepattern (ifos w)
           (storage_path e (concat (ifos w)) ''HWINJ_SUMMARY'' (analysis_time w) ''html''
              output_dir) i) [()]) fs3"
              unfolding setup_hardware_injection_page_def Let_def fold_add_opt fold_addDependency
              by (simp add: Node_def add_opt_def add_node_def stage_result_def stage_edges_def
                    hwinjpage_node_def Executable_def)
            with fetch None seg show ?thesis by blast
          next
            fix err fs3
            assume "get_hardware_injection_segment_files e (w\<lparr>cp := c\<rparr>) fs2 output_dir ?p
                      = Raise err (w\<lparr>cp := c\<rparr>) fs3"
            with dir url fetch None conf have "?R = Raise err (w\<lparr>cp := c\<rparr>) fs3"
              unfolding setup_hardware_injection_page_def Let_def by simp
            then show ?thesis by simp
          qed
        qed
      qed
    qed
  qed
qed

section \<open>Dependency edges of the created nodes\<close>

lemma nodes_stage_result [simp]:
  "nodes (stage_result w input_files mk xs) =
     nodes w @ map (\<lambda>(i, x). mk i x) (enumerate (next_dax_node w) xs)"
  by (simp add: stage_result_def)

lemma dependencies_stage_result [simp]:
  "dependencies (stage_result w input_files mk xs) =
     dependencies w @ stage_edges input_files (next_dax_node w) (length xs)"
  by (simp add: stage_result_def)

lemma stage_result_Nil [simp]: "stage_result w input_files mk [] = w"
  by (simp add: stage_result_def stage_edges_def)

lemma stage_result_fields [simp]:
  "next_dax_node (stage_result w input_files mk xs) = next_dax_node w + length xs"
  "cp (stage_result w input_files mk xs) = cp w"
  "ifos (stage_result w input_files mk xs) = ifos w"
  "analysis_time (stage_result w input_files mk xs) = analysis_time w"
  by (simp_all add: stage_result_def)

lemma nodes_created_stage:
  "nodes w0 = nodes w \<Longrightarrow>
   nodes_created w0 (stage_result w input_files mk xs) =
     map (\<lambda>(i, x). mk i x) (enumerate (next_dax_node w) xs)"
  by (simp add: nodes_created_def)

lemma edges_added_stage:
  "dependencies w0 = dependencies w \<Longrightarrow>
   edges_added w0 (stage_result w input_files mk xs) =
     stage_edges input_files (next_dax_node w) (length xs)"
  by (simp add: edges_added_def)

lemma length_stage_edges: "length (stage_edges input_files k n) = length input_files * n"
  by (induction n arbitrary: k) (simp_all add: stage_edges_Suc, simp add: stage_edges_def)

lemma set_stage_edges:
  "set (stage_edges input_files k n) =
     {\<lparr>parent = wf_file.node f, child = i\<rparr> | f i. f \<in> set input_files \<and> k \<le> i \<and> i < k + n}"
  by (auto simp: stage_edges_def)

lemma inputs_linked_stage:
  assumes "nodes w0 = nodes w" "dependencies w0 = dependencies w"
    and "\<And>i x. dax_node (mk i x) = i"
  shows "inputs_linked input_files w0 (stage_result w input_files mk xs)"
  unfolding inputs_linked_def nodes_created_stage [OF assms(1)] edges_added_stage [OF assms(2)]
  using assms
  by (auto simp: length_stage_edges set_stage_edges in_set_enumerate_eq)

lemma inputs_linked_same:
  "nodes w' = nodes w \<Longrightarrow> dependencies w' = dependencies w \<Longrightarrow> inputs_linked input_files w w'"
  by (simp add: inputs_linked_def nodes_created_def edges_added_def)

text \<open>
  Claim C1. For each of the five stage-setup routines, every input-file list and every tag
  list: the call only appends to the node and edge collections of the workflow, an edge
  from the producing node of every input file to every node the call created has been
  added, and the number of edges added is at least \<open>len(input_files)\<close> times the
  number of nodes created. For \<^verbatim>\<open>setup_hardware_injection_page\<close> this holds of the
  workflow state it leaves, whether it returns or raises.
\<close>

theorem stage_setup_links_all_inputs:
  "inputs_linked input_files w
     (snd (setup_plotinspiral w input_files cache_filename inspiral_cachepattern output_dir tags)) \<and>
   inputs_linked input_files w
     (snd (setup_plotnumtemplates w input_files cache_filename tmpltbank_cachepattern output_dir
        tags)) \<and>
   inputs_linked input_files w
     (snd (setup_plotthinca w input_files cache_filename coinc_cachepattern slide_cachepattern
        output_dir tags)) \<and>
   inputs_linked input_files w
     (snd (setup_plotinspiralrange w input_files cache_filename tmpltbank_cachepattern
        inspiral_cachepattern output_dir tags)) \<and>
   inputs_linked input_files w
     (final_workflow (setup_hardware_injection_page e w fs input_files cache_filename
        inspiral_cachepattern output_dir tags))"
proof -
  have hw: "inputs_linked input_files w
     (final_workflow (setup_hardware_injection_page e w fs input_files cache_filename
        inspiral_cachepattern output_dir tags))"
    using hwinj_cases [of e w fs input_files cache_filename inspiral_cachepattern output_dir tags]
    by (elim disjE exE conjE)
       (simp_all add: final_workflow_def inputs_linked_same inputs_linked_stage
          hwinjpage_node_def)
  show ?thesis
    by (simp add: setup_plotinspiral_eq setup_plotnumtemplates_eq setup_plotthinca_eq
          setup_plotinspiralrange_eq inputs_linked_stage hw
          plotinspiral_node_def plotnumtemplates_node_def plotthinca_node_def
          plotinspiralrange_node_def)
qed


section \<open>Node counts and returned file lists\<close>

lemma setup_summary_plots_eq:
  "setup_summary_plots e w fs input_files cache_filename tmpltbank_cachepattern
       inspiral_cachepattern output_dir tags =
     (case (if \<not> path_exists fs output_dir then makedirs e fs output_dir else Inr fs) of
        Inl err \<Rightarrow> Raise err w fs
      | Inr fs' \<Rightarrow>
          Return []
            (stage_result
              (stage_result
                (stage_result w input_files
                  (plotinspiral_node
                     (Executable (cp w) ''plotinspiral'' ''vanilla'' (ifos w) output_dir tags)
                     (analysis_time w) cache_filename inspiral_cachepattern output_dir)
                  (List.product tags (ifos w)))
                input_files
                (plotinspiralrange_node
                   (Executable (cp w) ''plotinspiralrange'' ''vanilla'' (ifos w) output_dir tags)
                   (analysis_time w) cache_filename tmpltbank_cachepattern
                   inspiral_cachepattern output_dir)
                tags)
              input_files
              (plotnumtemplates_node
                 (Executable (cp w) ''plotnumtemplates'' ''vanilla'' (ifos w) output_dir tags)
                 (analysis_time w) cache_filename tmpltbank_cachepattern output_dir)
              tags)
            fs')"
  unfolding setup_summary_plots_def Let_def
  by (simp add: setup_plotinspiral_eq setup_plotinspiralrange_eq setup_plotnumtemplates_eq
        split: sum.split)

lemma example_summary_plots_returns:
  "\<exists>fl w' fs'. setup_summary_plots example_env example_workflow {} example_inputs ''cache''
       ''TMPLTBANK'' ''INSPIRAL'' ''plots'' [''full_data''] = Return fl w' fs'"
  by (simp add: setup_summary_plots_eq makedirs_def path_exists_def example_env_def)

text \<open>
  Claim C2, amended. For every non-empty tag list, \<^verbatim>\<open>setup_plotnumtemplates\<close> and
  \<^verbatim>\<open>setup_plotinspiralrange\<close> create exactly \<open>len(tags)\<close> nodes, and
  \<^verbatim>\<open>setup_plotinspiral\<close>, which loops over the detectors inside the loop over the
  tags, creates exactly \<open>len(tags) * len(workflow.ifos)\<close> nodes.
\<close>

theorem stage_node_counts:
  "tags \<noteq> [] \<Longrightarrow>
   length (nodes_created w (snd (setup_plotnumtemplates w input_files cache_filename
      tmpltbank_cachepattern output_dir tags))) = length tags \<and>
   length (nodes_created w (snd (setup_plotinspiralrange w input_files cache_filename
      tmpltbank_cachepattern inspiral_cachepattern output_dir tags))) = length tags \<and>
   length (nodes_created w (snd (setup_plotinspiral w input_files cache_filename
      inspiral_cachepattern output_dir tags))) = length tags * length (ifos w)"
  by (simp add: setup_plotnumtemplates_eq setup_plotinspiralrange_eq setup_plotinspiral_eq
        nodes_created_stage)

text \<open>
  Claim C2, amended, on two tags and the two detectors of the example workflow.
\<close>

theorem stage_node_counts_witness:
  "[''full_data'', ''injections''] \<noteq> [] \<and>
   length (nodes_created example_workflow (snd (setup_plotnumtemplates example_workflow
      example_inputs ''cache'' ''TMPLTBANK'' ''plots'' [''full_data'', ''injections'']))) = 2 \<and>
   length (nodes_created example_workflow (snd (setup_plotinspiralrange example_workflow
      example_inputs ''cache'' ''TMPLTBANK'' ''INSPIRAL'' ''plots''
      [''full_data'', ''injections'']))) = 2 \<and>
   length (nodes_created example_workflow (snd (setup_plotinspiral example_workflow
      example_inputs ''cache'' ''INSPIRAL'' ''plots'' [''full_data'', ''injections'']))) = 4"
  using stage_node_counts [where tags = "[''full_data'', ''injections'']" and w = example_workflow
             and input_files = example_inputs and cache_filename = "''cache''"
             and tmpltbank_cachepattern = "''TMPLTBANK''" and output_dir = "''plots''"
             and inspiral_cachepattern = "''INSPIRAL''"]
  by (simp add: example_workflow_def)

text \<open>
  Claim C2 as stated fails: with the two detectors H1 and L1 and the single tag
  \<^verbatim>\<open>full_data\<close>, \<^verbatim>\<open>setup_plotinspiral\<close> creates two nodes, not one.
\<close>

theorem plotinspiral_node_count_counterexample:
  "[''full_data''] \<noteq> [] \<and>
   length (nodes_created example_workflow (snd (setup_plotinspiral example_workflow
      example_inputs ''cache'' ''INSPIRAL'' ''plots'' [''full_data'']))) \<noteq> length [''full_data'']"
  by (simp add: setup_plotinspiral_eq nodes_created_stage example_workflow_def)

text \<open>
  Claim C10. Each of the four plot stage-setup routines returns an empty file list for
  every input, and whenever the dispatcher returns, its combined list is empty.
\<close>

theorem plot_stages_return_no_files:
  "fst (setup_plotinspiral w input_files cache_filename inspiral_cachepattern output_dir tags) = [] \<and>
   fst (setup_plotnumtemplates w input_files cache_filename tmpltbank_cachepattern output_dir
      tags) = [] \<and>
   fst (setup_plotthinca w input_files cache_filename coinc_cachepattern slide_cachepattern
      output_dir tags) = [] \<and>
   fst (setup_plotinspiralrange w input_files cache_filename tmpltbank_cachepattern
      inspiral_cachepattern output_dir tags) = [] \<and>
   (\<forall>fl w' fs'. setup_summary_plots e w fs input_files cache_filename tmpltbank_cachepattern
        inspiral_cachepattern output_dir tags = Return fl w' fs' \<longrightarrow> fl = [])"
  by (simp add: setup_plotinspiral_eq setup_plotnumtemplates_eq setup_plotthinca_eq
        setup_plotinspiralrange_eq setup_summary_plots_eq split: sum.split)

text \<open>
  Claim C10 on a concrete call of the dispatcher.
\<close>

theorem plot_stages_return_no_files_witness:
  "return_value (setup_summary_plots example_env example_workflow {} example_inputs ''cache''
       ''TMPLTBANK'' ''INSPIRAL'' ''plots'' [''full_data'']) = Some []"
proof -
  obtain fl w' fs' where r: "setup_summary_plots example_env example_workflow {} example_inputs
      ''cache'' ''TMPLTBANK'' ''INSPIRAL'' ''plots'' [''full_data''] = Return fl w' fs'"
    using example_summary_plots_returns by blast
  with plot_stages_return_no_files [where w = example_workflow and input_files = example_inputs
             and cache_filename = "''cache''" and inspiral_cachepattern = "''INSPIRAL''"
             and output_dir = "''plots''" and tags = "[''full_data'']"
             and tmpltbank_cachepattern = "''TMPLTBANK''" and e = example_env and fs = "{}"]
  have "fl = []" by blast
  with r show ?thesis by (simp add: return_value_def)
qed

section \<open>The hardware-injection page on concrete inputs; empty tag lists\<close>

lemma example_hwinj_result:
  "\<exists>w' fs'. setup_hardware_injection_page example_env example_workflow {} example_inputs
      ''cache'' ''INSPIRAL'' ''hwinj'' [] = Return [] w' fs' \<and>
     length (nodes w') = 1 \<and> length (dependencies w') = 2"
  by (simp add: setup_hardware_injection_page_def get_hardware_injection_segment_files_def
        Let_def makedirs_def path_exists_def example_env_def example_workflow_def
        example_config_def cp_get_def cp_set_def Node_def add_opt_def add_node_def
        addDependency_def example_inputs_def path_join_def basename_def parent_dirs_def)

text \<open>
  The invariant of claim C1 on a concrete call: one tag, two input files; the edge from
  the producer of the first file to the created node is there.
\<close>

theorem stage_setup_links_all_inputs_witness:
  "\<lparr>node = 1, file_name = ''a.xml''\<rparr> \<in> set example_inputs \<and>
   length (nodes_created example_workflow (snd (setup_plotnumtemplates example_workflow
      example_inputs ''cache'' ''TMPLTBANK'' ''plots'' [''full_data'']))) = 1 \<and>
   \<lparr>parent = 1, child = 5\<rparr> \<in> set (edges_added example_workflow
      (snd (setup_plotnumtemplates example_workflow example_inputs ''cache'' ''TMPLTBANK''
         ''plots'' [''full_data''])))"
proof -
  let ?w' = "snd (setup_plotnumtemplates example_workflow example_inputs ''cache''
      ''TMPLTBANK'' ''plots'' [''full_data''])"
  have linked: "inputs_linked example_inputs example_workflow ?w'"
    using stage_setup_links_all_inputs [where input_files = example_inputs and w = example_workflow
               and cache_filename = "''cache''" and tmpltbank_cachepattern = "''TMPLTBANK''"
               and output_dir = "''plots''" and tags = "[''full_data'']"]
    by blast
  have f: "\<lparr>node = 1, file_name = ''a.xml''\<rparr> \<in> set example_inputs"
    by (simp add: example_inputs_def)
  have n: "\<exists>n. nodes_created example_workflow ?w' = [n] \<and> dax_node n = 5"
    by (simp add: setup_plotnumtemplates_eq nodes_created_stage example_workflow_def
          plotnumtemplates_node_def)
  then obtain n where n: "nodes_created example_workflow ?w' = [n]" "dax_node n = 5"
    by blast
  from linked f n have "\<lparr>parent = 1, child = 5\<rparr> \<in> set (edges_added example_workflow ?w')"
    unfolding inputs_linked_def by fastforce
  with f n show ?thesis by simp
qed

text \<open>
  Claim C5 as stated fails for \<^verbatim>\<open>setup_hardware_injection_page\<close>: with
  \<^verbatim>\<open>tags=[]\<close> and two input files it returns, having created one node and added
  two edges.
\<close>

theorem hwinj_page_empty_tags_counterexample:
  "return_value (setup_hardware_injection_page example_env example_workflow {} example_inputs
      ''cache'' ''INSPIRAL'' ''hwinj'' []) = Some [] \<and>
   length (nodes_created example_workflow (final_workflow
     (setup_hardware_injection_page example_env example_workflow {} example_inputs
        ''cache'' ''INSPIRAL'' ''hwinj'' []))) = 1 \<and>
   length (edges_added example_workflow (final_workflow
     (setup_hardware_injection_page example_env example_workflow {} example_inputs
        ''cache'' ''INSPIRAL'' ''hwinj'' []))) = 2"
proof -
  obtain w' fs' where "setup_hardware_injection_page example_env example_workflow {}
      example_inputs ''cache'' ''INSPIRAL'' ''hwinj'' [] = Return [] w' fs'"
    "length (nodes w') = 1" "length (dependencies w') = 2"
    using example_hwinj_result by blast
  then show ?thesis
    by (simp add: return_value_def final_workflow_def nodes_created_def edges_added_def
          example_workflow_def)
qed

text \<open>
  Claim C5, amended. With \<^verbatim>\<open>tags=[]\<close> each of the four plot stage-setup routines
  returns an empty file list and leaves the workflow state unchanged.
  \<^verbatim>\<open>setup_hardware_injection_page\<close> does not loop over the tags: with
  \<^verbatim>\<open>tags=[]\<close>, whenever it returns, it returns an empty file list and has created
  exactly one node and added \<open>len(input_files)\<close> edges.
\<close>

theorem empty_tags_stage_effect:
  "setup_plotinspiral w input_files cache_filename inspiral_cachepattern output_dir [] = ([], w) \<and>
   setup_plotnumtemplates w input_files cache_filename tmpltbank_cachepattern output_dir []
     = ([], w) \<and>
   setup_plotthinca w input_files cache_filename coinc_cachepattern slide_cachepattern
     output_dir [] = ([], w) \<and>
   setup_plotinspiralrange w input_files cache_filename tmpltbank_cachepattern
     inspiral_cachepattern output_dir [] = ([], w) \<and>
   (\<forall>fl w' fs'. setup_hardware_injection_page e w fs input_files cache_filename
        inspiral_cachepattern output_dir [] = Return fl w' fs' \<longrightarrow>
      fl = [] \<and> length (nodes_created w w') = 1 \<and>
      length (edges_added w w') = length input_files)"
proof -
  have "\<forall>fl w' fs'. setup_hardware_injection_page e w fs input_files cache_filename
        inspiral_cachepattern output_dir [] = Return fl w' fs' \<longrightarrow>
      fl = [] \<and> length (nodes_created w w') = 1 \<and>
      length (edges_added w w') = length input_files"
    using hwinj_cases [of e w fs input_files cache_filename inspiral_cachepattern output_dir "[]"]
    by (elim disjE exE conjE)
       (simp_all add: nodes_created_stage edges_added_stage length_stage_edges)
  then show ?thesis
    by (simp add: setup_plotinspiral_eq setup_plotnumtemplates_eq setup_plotthinca_eq
          setup_plotinspiralrange_eq)
qed

text \<open>
  Claim C5, amended, on a concrete call of \<^verbatim>\<open>setup_hardware_injection_page\<close> with
  \<^verbatim>\<open>tags=[]\<close> in an environment where every external call succeeds.
\<close>

theorem empty_tags_stage_effect_witness:
  "return_value (setup_hardware_injection_page example_env example_workflow {} example_inputs
      ''cache'' ''INSPIRAL'' ''hwinj'' []) = Some [] \<and>
   length (edges_added example_workflow (final_workflow
     (setup_hardware_injection_page example_env example_workflow {} example_inputs
        ''cache'' ''INSPIRAL'' ''hwinj'' []))) = length example_inputs"
proof -
  obtain w' fs' where r: "setup_hardware_injection_page example_env example_workflow {}
      example_inputs ''cache'' ''INSPIRAL'' ''hwinj'' [] = Return [] w' fs'"
    using example_hwinj_result by blast
  with empty_tags_stage_effect [where e = example_env and w = example_workflow and fs = "{}"
             and input_files = example_inputs and cache_filename = "''cache''"
             and inspiral_cachepattern = "''INSPIRAL''" and output_dir = "''hwinj''"]
  have "length (edges_added example_workflow w') = length example_inputs" by blast
  with r show ?thesis by (simp add: return_value_def final_workflow_def)
qed

section \<open>The dispatcher\<close>

lemma map_enumerate_const:
  "(\<And>i x. g (f i x) = c) \<Longrightarrow>
   map g (map (\<lambda>(i, x). f i x) (enumerate k xs)) = replicate (length xs) c"
  by (induction xs arbitrary: k) simp_all

lemma exe_names_plotinspiral:
  "map (\<lambda>n. exe_name (executable n))
     (map (\<lambda>(i, x). plotinspiral_node job window c p od i x) (enumerate k xs))
   = replicate (length xs) (exe_name job)"
  by (rule map_enumerate_const) (simp add: plotinspiral_node_def)

lemma exe_names_plotinspiralrange:
  "map (\<lambda>n. exe_name (executable n))
     (map (\<lambda>(i, x). plotinspiralrange_node job window c p q od i x) (enumerate k xs))
   = replicate (length xs) (exe_name job)"
  by (rule map_enumerate_const) (simp add: plotinspiralrange_node_def)

lemma exe_names_plotnumtemplates:
  "map (\<lambda>n. exe_name (executable n))
     (map (\<lambda>(i, x). plotnumtemplates_node job window c p od i x) (enumerate k xs))
   = replicate (length xs) (exe_name job)"
  by (rule map_enumerate_const) (simp add: plotnumtemplates_node_def)

text \<open>
  Claim C6. When the dispatcher \<^verbatim>\<open>setup_summary_plots\<close> returns, the workflow state is
  the one that \<^verbatim>\<open>setup_plotinspiral\<close>, then \<^verbatim>\<open>setup_plotinspiralrange\<close>, then
  \<^verbatim>\<open>setup_plotnumtemplates\<close> leave, run in this order; the returned list is the
  concatenation of their lists in the same order; the nodes created are those of
  \<^verbatim>\<open>plotinspiral\<close>, then \<^verbatim>\<open>plotinspiralrange\<close>, then \<^verbatim>\<open>plotnumtemplates\<close>;
  no node of \<^verbatim>\<open>plotthinca\<close> is created.
\<close>

theorem dispatcher_stage_order:
  "setup_summary_plots e w fs input_files cache_filename tmpltbank_cachepattern
     inspiral_cachepattern output_dir tags = Return fl w' fs' \<Longrightarrow>
   w' = snd (setup_plotnumtemplates
          (snd (setup_plotinspiralrange
             (snd (setup_plotinspiral w input_files cache_filename inspiral_cachepattern
                output_dir tags))
             input_files cache_filename tmpltbank_cachepattern inspiral_cachepattern
             output_dir tags))
          input_files cache_filename tmpltbank_cachepattern output_dir tags) \<and>
   fl = fst (setup_plotinspiral w input_files cache_filename inspiral_cachepattern
               output_dir tags)
      @ fst (setup_plotinspiralrange
               (snd (setup_plotinspiral w input_files cache_filename inspiral_cachepattern
                  output_dir tags))
               input_files cache_filename tmpltbank_cachepattern inspiral_cachepattern
               output_dir tags)
      @ fst (setup_plotnumtemplates
               (snd (setup_plotinspiralrange
                  (snd (setup_plotinspiral w input_files cache_filename inspiral_cachepattern
                     output_dir tags))
                  input_files cache_filename tmpltbank_cachepattern inspiral_cachepattern
                  output_dir tags))
               input_files cache_filename tmpltbank_cachepattern output_dir tags) \<and>
   map (\<lambda>n. exe_name (executable n)) (nodes_created w w') =
     replicate (length tags * length (ifos w)) ''plotinspiral''
     @ replicate (length tags) ''plotinspiralrange''
     @ replicate (length tags) ''plotnumtemplates'' \<and>
   ''plotthinca'' \<notin> set (map (\<lambda>n. exe_name (executable n)) (nodes_created w w'))"
proof -
  assume r: "setup_summary_plots e w fs input_files cache_filename tmpltbank_cachepattern
     inspiral_cachepattern output_dir tags = Return fl w' fs'"
  let ?j1 = "Executable (cp w) ''plotinspiral'' ''vanilla'' (ifos w) output_dir tags"
  let ?j2 = "Executable (cp w) ''plotinspiralrange'' ''vanilla'' (ifos w) output_dir tags"
  let ?j3 = "Executable (cp w) ''plotnumtemplates'' ''vanilla'' (ifos w) output_dir tags"
  let ?w1 = "stage_result w input_files
               (plotinspiral_node ?j1 (analysis_time w) cache_filename inspiral_cachepattern
                  output_dir) (List.product tags (ifos w))"
  let ?w2 = "stage_result ?w1 input_files
               (plotinspiralrange_node ?j2 (analysis_time w) cache_filename
                  tmpltbank_cachepattern inspiral_cachepattern output_dir) tags"
  let ?w3 = "stage_result ?w2 input_files
               (plotnumtemplates_node ?j3 (analysis_time w) cache_filename
                  tmpltbank_cachepattern output_dir) tags"
  from r have res: "fl = []" "w' = ?w3"
    unfolding setup_summary_plots_eq by (auto split: sum.splits)
  have order: "w' = snd (setup_plotnumtemplates
          (snd (setup_plotinspiralrange
             (snd (setup_plotinspiral w input_files cache_filename inspiral_cachepattern
                output_dir tags))
             input_files cache_filename tmpltbank_cachepattern inspiral_cachepattern
             output_dir tags))
          input_files cache_filename tmpltbank_cachepattern output_dir tags)"
    by (simp add: res setup_plotinspiral_eq setup_plotinspiralrange_eq
          setup_plotnumtemplates_eq)
  have files: "fl = fst (setup_plotinspiral w input_files cache_filename inspiral_cachepattern
               output_dir tags)
      @ fst (setup_plotinspiralrange
               (snd (setup_plotinspiral w input_files cache_filename inspiral_cachepattern
                  output_dir tags))
               input_files cache_filename tmpltbank_cachepattern inspiral_cachepattern
               output_dir tags)
      @ fst (setup_plotnumtemplates
               (snd (setup_plotinspiralrange
                  (snd (setup_plotinspiral w input_files cache_filename inspiral_cachepattern
                     output_dir tags))
                  input_files cache_filename tmpltbank_cachepattern inspiral_cachepattern
                  output_dir tags))
               input_files cache_filename tmpltbank_cachepattern output_dir tags)"
    by (simp add: res setup_plotinspiral_eq setup_plotinspiralrange_eq
          setup_plotnumtemplates_eq)
  have created: "nodes_created w w' =
      map (\<lambda>(i, x). plotinspiral_node ?j1 (analysis_time w) cache_filename
             inspiral_cachepattern output_dir i x)
        (enumerate (next_dax_node w) (List.product tags (ifos w)))
      @ map (\<lambda>(i, x). plotinspiralrange_node ?j2 (analysis_time w) cache_filename
             tmpltbank_cachepattern inspiral_cachepattern output_dir i x)
        (enumerate (next_dax_node ?w1) tags)
      @ map (\<lambda>(i, x). plotnumtemplates_node ?j3 (analysis_time w) cache_filename
             tmpltbank_cachepattern output_dir i x)
        (enumerate (next_dax_node ?w2) tags)"
    unfolding res nodes_created_def by simp
  have names: "map (\<lambda>n. exe_name (executable n)) (nodes_created w w') =
     replicate (length tags * length (ifos w)) ''plotinspiral''
     @ replicate (length tags) ''plotinspiralrange''
     @ replicate (length tags) ''plotnumtemplates''"
    unfolding created map_append
    by (simp only: exe_names_plotinspiral exe_names_plotinspiralrange
          exe_names_plotnumtemplates length_product)
       (simp add: Executable_def)
  have "''plotthinca'' \<notin> set (map (\<lambda>n. exe_name (executable n)) (nodes_created w w'))"
    unfolding names by simp
  with order files names show ?thesis by blast
qed

text \<open>
  Claim C6 on a concrete call with one tag and two detectors.
\<close>

theorem dispatcher_stage_order_witness:
  "map (\<lambda>n. exe_name (executable n))
     (nodes_created example_workflow (final_workflow
        (setup_summary_plots example_env example_workflow {} example_inputs ''cache''
           ''TMPLTBANK'' ''INSPIRAL'' ''plots'' [''full_data''])))
   = [''plotinspiral'', ''plotinspiral'', ''plotinspiralrange'', ''plotnumtemplates'']"
proof -
  obtain fl w' fs' where r: "setup_summary_plots example_env example_workflow {} example_inputs
      ''cache'' ''TMPLTBANK'' ''INSPIRAL'' ''plots'' [''full_data''] = Return fl w' fs'"
    using example_summary_plots_returns by blast
  from dispatcher_stage_order [OF r]
  have "map (\<lambda>n. exe_name (executable n)) (nodes_created example_workflow w') =
     replicate (length [''full_data''] * length (ifos example_workflow)) ''plotinspiral''
     @ replicate (length [''full_data'']) ''plotinspiralrange''
     @ replicate (length [''full_data'']) ''plotnumtemplates''"
    by blast
  then show ?thesis
    unfolding r final_workflow_def result.case
    by (simp add: example_workflow_def numeral_2_eq_2)
qed

section \<open>Failure of the external calls of the hardware-injection page\<close>

lemma segment_files_call_fails:
  assumes "(if \<not> path_exists fs (path_join output_dir ''logs'')
            then makedirs e fs (path_join output_dir ''logs'') else Inr fs) = Inr fs3"
    and "cp_get (cp w) ''executables'' ''hardware_injection_page'' = Inr exe_path"
    and "cp_get (cp w) ''workflow-segments'' ''segments-database-url'' = Inr segment_db"
    and "make_external_call e (hwinjsegFindCall w output_dir p exe_path segment_db)
           (path_join output_dir ''logs'') ''hwinjseg-call'' fs3 = (Some err, fs4)"
  shows "get_hardware_injection_segment_files e w fs output_dir p = Raise err w fs4"
  using assms(2-4)
  unfolding get_hardware_injection_segment_files_def Let_def assms(1) hwinjsegFindCall_def
  by simp

lemma segment_files_return:
  assumes "get_hardware_injection_segment_files e w fs output_dir p = Return u w' fs'"
  shows "w' = w \<and>
    (\<exists>fs3 exe_path segment_db.
      (if \<not> path_exists fs (path_join output_dir ''logs'')
       then makedirs e fs (path_join output_dir ''logs'') else Inr fs) = Inr fs3 \<and>
      cp_get (cp w) ''executables'' ''hardware_injection_page'' = Inr exe_path \<and>
      cp_get (cp w) ''workflow-segments'' ''segments-database-url'' = Inr segment_db \<and>
      make_external_call e (hwinjsegFindCall w output_dir p exe_path segment_db)
        (path_join output_dir ''logs'') ''hwinjseg-call'' fs3 = (None, fs'))"
proof -
  let ?l = "path_join output_dir ''logs''"
  show ?thesis
  proof (cases "if \<not> path_exists fs ?l then makedirs e fs ?l else Inr fs")
    case (Inl err)
    with assms show ?thesis
      unfolding get_hardware_injection_segment_files_def Let_def by simp
  next
    case dir: (Inr fs3)
    show ?thesis
    proof (cases "cp_get (cp w) ''executables'' ''hardware_injection_page''")
      case (Inl err)
      with assms dir show ?thesis
        unfolding get_hardware_injection_segment_files_def Let_def by simp
    next
      case exe: (Inr exe_path)
      show ?thesis
      proof (cases "cp_get (cp w) ''workflow-segments'' ''segments-database-url''")
        case (Inl err)
        with assms dir exe show ?thesis
          unfolding get_hardware_injection_segment_files_def Let_def by simp
      next
        case db: (Inr segment_db)
        obtain r fs4 where call: "make_external_call e
            (hwinjsegFindCall w output_dir p exe_path segment_db) ?l ''hwinjseg-call'' fs3
            = (r, fs4)"
          by (cases "make_external_call e
            (hwinjsegFindCall w output_dir p exe_path segment_db) ?l ''hwinjseg-call'' fs3")
             simp
        from assms have res: "(case r of Some err \<Rightarrow> Raise err w fs4 | None \<Rightarrow> Return () w fs4)
            = Return u w' fs'"
          using call
          unfolding get_hardware_injection_segment_files_def Let_def dir hwinjsegFindCall_def
          by (simp add: exe db)
        then have "r = None" "w' = w" "fs4 = fs'"
          by (cases r; simp)+
        with dir exe db call show ?thesis by blast
      qed
    qed
  qed
qed

text \<open>
  Claim C7. In \<^verbatim>\<open>setup_hardware_injection_page\<close>: if the definer fetch of this call
  (the \<^verbatim>\<open>urlretrieve\<close> of the configured URL to its path under the output
  directory, on the filesystem the directory creation left) fails, the routine raises
  that error with the workflow state it was given; if the fetch succeeds and the segment
  query of this call (the \<^verbatim>\<open>make_external_call\<close> of the command line of
  \<^verbatim>\<open>get_hardware_injection_segment_files\<close>) fails, the routine raises that error
  with the workflow state it was given but for the updated configuration; whenever it
  raises, the node and edge collections are unchanged; and whenever it returns, the fetch
  and the segment query of this call have both succeeded, so the node is built and
  registered only after both.
\<close>

theorem hwinj_page_abort_registers_nothing:
  "(\<forall>fs1 url err fs2.
      (if \<not> path_exists fs output_dir then makedirs e fs output_dir else Inr fs) = Inr fs1 \<and>
      get_opt_tags e (cp w) ''workflow-hardware-injections'' ''hwinj-definer-url'' tags
        = Inr url \<and>
      urlretrieve e url (path_join output_dir (basename url)) fs1 = (Some err, fs2) \<longrightarrow>
      setup_hardware_injection_page e w fs input_files cache_filename
        inspiral_cachepattern output_dir tags = Raise err w fs2) \<and>
   (\<forall>fs1 url fs2 c fs3 exe_path segment_db err fs4.
      (if \<not> path_exists fs output_dir then makedirs e fs output_dir else Inr fs) = Inr fs1 \<and>
      get_opt_tags e (cp w) ''workflow-hardware-injections'' ''hwinj-definer-url'' tags
        = Inr url \<and>
      urlretrieve e url (path_join output_dir (basename url)) fs1 = (None, fs2) \<and>
      cp_set (cp w) ''workflow-hardware-injections'' ''hwinj-definer-file''
        (path_join output_dir (basename url)) = Inr c \<and>
      (if \<not> path_exists fs2 (path_join output_dir ''logs'')
       then makedirs e fs2 (path_join output_dir ''logs'') else Inr fs2) = Inr fs3 \<and>
      cp_get c ''executables'' ''hardware_injection_page'' = Inr exe_path \<and>
      cp_get c ''workflow-segments'' ''segments-database-url'' = Inr segment_db \<and>
      make_external_call e
        (hwinjsegFindCall (w\<lparr>cp := c\<rparr>) output_dir (path_join output_dir (basename url))
           exe_path segment_db)
        (path_join output_dir ''logs'') ''hwinjseg-call'' fs3 = (Some err, fs4) \<longrightarrow>
      setup_hardware_injection_page e w fs input_files cache_filename
        inspiral_cachepattern output_dir tags = Raise err (w\<lparr>cp := c\<rparr>) fs4) \<and>
   (\<forall>err w' fs'. setup_hardware_injection_page e w fs input_files cache_filename
        inspiral_cachepattern output_dir tags = Raise err w' fs' \<longrightarrow>
      nodes w' = nodes w \<and> dependencies w' = dependencies w) \<and>
   (\<forall>fl w' fs'. setup_hardware_injection_page e w fs input_files cache_filename
        inspiral_cachepattern output_dir tags = Return fl w' fs' \<longrightarrow>
      (\<exists>fs1 url fs2 c fs3 exe_path segment_db.
         (if \<not> path_exists fs output_dir then makedirs e fs output_dir else Inr fs) = Inr fs1 \<and>
         get_opt_tags e (cp w) ''workflow-hardware-injections'' ''hwinj-definer-url'' tags
           = Inr url \<and>
         urlretrieve e url (path_join output_dir (basename url)) fs1 = (None, fs2) \<and>
         cp_set (cp w) ''workflow-hardware-injections'' ''hwinj-definer-file''
           (path_join output_dir (basename url)) = Inr c \<and>
         (if \<not> path_exists fs2 (path_join output_dir ''logs'')
          then makedirs e fs2 (path_join output_dir ''logs'') else Inr fs2) = Inr fs3 \<and>
         cp_get c ''executables'' ''hardware_injection_page'' = Inr exe_path \<and>
         cp_get c ''workflow-segments'' ''segments-database-url'' = Inr segment_db \<and>
         make_external_call e
           (hwinjsegFindCall (w\<lparr>cp := c\<rparr>) output_dir (path_join output_dir (basename url))
              exe_path segment_db)
           (path_join output_dir ''logs'') ''hwinjseg-call'' fs3 = (None, fs')))"
proof -
  let ?R = "setup_hardware_injection_page e w fs input_files cache_filename
        inspiral_cachepattern output_dir tags"
  let ?D = "if \<not> path_exists fs output_dir then makedirs e fs output_dir else Inr fs"
  let ?G = "get_opt_tags e (cp w) ''workflow-hardware-injections'' ''hwinj-definer-url'' tags"
  have c1: "\<forall>fs1 url err fs2.
      ?D = Inr fs1 \<and> ?G = Inr url \<and>
      urlretrieve e url (path_join output_dir (basename url)) fs1 = (Some err, fs2) \<longrightarrow>
      ?R = Raise err w fs2"
    unfolding setup_hardware_injection_page_def Let_def by simp
  have c2: "\<forall>fs1 url fs2 c fs3 exe_path segment_db err fs4.
      ?D = Inr fs1 \<and> ?G = Inr url \<and>
      urlretrieve e url (path_join output_dir (basename url)) fs1 = (None, fs2) \<and>
      cp_set (cp w) ''workflow-hardware-injections'' ''hwinj-definer-file''
        (path_join output_dir (basename url)) = Inr c \<and>
      (if \<not> path_exists fs2 (path_join output_dir ''logs'')
       then makedirs e fs2 (path_join output_dir ''logs'') else Inr fs2) = Inr fs3 \<and>
      cp_get c ''executables'' ''hardware_injection_page'' = Inr exe_path \<and>
      cp_get c ''workflow-segments'' ''segments-database-url'' = Inr segment_db \<and>
      make_external_call e
        (hwinjsegFindCall (w\<lparr>cp := c\<rparr>) output_dir (path_join output_dir (basename url))
           exe_path segment_db)
        (path_join output_dir ''logs'') ''hwinjseg-call'' fs3 = (Some err, fs4) \<longrightarrow>
      ?R = Raise err (w\<lparr>cp := c\<rparr>) fs4"
  proof (intro allI impI, elim conjE)
    fix fs1 url fs2 c fs3 exe_path segment_db err fs4
    let ?p = "path_join output_dir (basename url)"
    assume d: "?D = Inr fs1" and g: "?G = Inr url"
      and u: "urlretrieve e url ?p fs1 = (None, fs2)"
      and s: "cp_set (cp w) ''workflow-hardware-injections'' ''hwinj-definer-file'' ?p = Inr c"
      and l: "(if \<not> path_exists fs2 (path_join output_dir ''logs'')
       then makedirs e fs2 (path_join output_dir ''logs'') else Inr fs2) = Inr fs3"
      and x: "cp_get c ''executables'' ''hardware_injection_page'' = Inr exe_path"
      and y: "cp_get c ''workflow-segments'' ''segments-database-url'' = Inr segment_db"
      and m: "make_external_call e (hwinjsegFindCall (w\<lparr>cp := c\<rparr>) output_dir ?p
           exe_path segment_db) (path_join output_dir ''logs'') ''hwinjseg-call'' fs3
           = (Some err, fs4)"
    have "get_hardware_injection_segment_files e (w\<lparr>cp := c\<rparr>) fs2 output_dir ?p
            = Raise err (w\<lparr>cp := c\<rparr>) fs4"
      by (rule segment_files_call_fails [OF l _ _ m]) (simp_all add: x y)
    with d g u s show "?R = Raise err (w\<lparr>cp := c\<rparr>) fs4"
      unfolding setup_hardware_injection_page_def Let_def by simp
  qed
  have c3: "\<forall>err w' fs'. ?R = Raise err w' fs' \<longrightarrow>
      nodes w' = nodes w \<and> dependencies w' = dependencies w"
    using hwinj_cases [of e w fs input_files cache_filename inspiral_cachepattern output_dir tags]
    by (elim disjE exE conjE) simp_all
  have c4: "\<forall>fl w' fs'. ?R = Return fl w' fs' \<longrightarrow>
      (\<exists>fs1 url fs2 c fs3 exe_path segment_db.
         ?D = Inr fs1 \<and> ?G = Inr url \<and>
         urlretrieve e url (path_join output_dir (basename url)) fs1 = (None, fs2) \<and>
         cp_set (cp w) ''workflow-hardware-injections'' ''hwinj-definer-file''
           (path_join output_dir (basename url)) = Inr c \<and>
         (if \<not> path_exists fs2 (path_join output_dir ''logs'')
          then makedirs e fs2 (path_join output_dir ''logs'') else Inr fs2) = Inr fs3 \<and>
         cp_get c ''executables'' ''hardware_injection_page'' = Inr exe_path \<and>
         cp_get c ''workflow-segments'' ''segments-database-url'' = Inr segment_db \<and>
         make_external_call e
           (hwinjsegFindCall (w\<lparr>cp := c\<rparr>) output_dir (path_join output_dir (basename url))
              exe_path segment_db)
           (path_join output_dir ''logs'') ''hwinjseg-call'' fs3 = (None, fs'))"
  proof (intro allI impI)
    fix fl w' fs'
    assume r: "?R = Return fl w' fs'"
    show "\<exists>fs1 url fs2 c fs3 exe_path segment_db.
         ?D = Inr fs1 \<and> ?G = Inr url \<and>
         urlretrieve e url (path_join output_dir (basename url)) fs1 = (None, fs2) \<and>
         cp_set (cp w) ''workflow-hardware-injections'' ''hwinj-definer-file''
           (path_join output_dir (basename url)) = Inr c \<and>
         (if \<not> path_exists fs2 (path_join output_dir ''logs'')
          then makedirs e fs2 (path_join output_dir ''logs'') else Inr fs2) = Inr fs3 \<and>
         cp_get c ''executables'' ''hardware_injection_page'' = Inr exe_path \<and>
         cp_get c ''workflow-segments'' ''segments-database-url'' = Inr segment_db \<and>
         make_external_call e
           (hwinjsegFindCall (w\<lparr>cp := c\<rparr>) output_dir (path_join output_dir (basename url))
              exe_path segment_db)
           (path_join output_dir ''logs'') ''hwinjseg-call'' fs3 = (None, fs')"
    proof (cases ?D)
      case (Inl err)
      with r show ?thesis
        unfolding setup_hardware_injection_page_def Let_def by simp
    next
      case d: (Inr fs1)
      show ?thesis
      proof (cases ?G)
        case (Inl err)
        with r d show ?thesis
          unfolding setup_hardware_injection_page_def Let_def by simp
      next
        case g: (Inr url)
        let ?p = "path_join output_dir (basename url)"
        obtain ro fs2 where u: "urlretrieve e url ?p fs1 = (ro, fs2)"
          by (cases "urlretrieve e url ?p fs1") simp
        show ?thesis
        proof (cases ro)
          case (Some err)
          with r d g u show ?thesis
            unfolding setup_hardware_injection_page_def Let_def by simp
        next
          case None
          show ?thesis
          proof (cases "cp_set (cp w) ''workflow-hardware-injections''
                          ''hwinj-definer-file'' ?p")
            case (Inl err)
            with r d g u None show ?thesis
              unfolding setup_hardware_injection_page_def Let_def by simp
          next
            case s: (Inr c)
            show ?thesis
            proof (cases "get_hardware_injection_segment_files e (w\<lparr>cp := c\<rparr>) fs2
                            output_dir ?p")
              case (Raise err w3 fs3)
              with r d g u None s show ?thesis
                unfolding setup_hardware_injection_page_def Let_def by simp
            next
              case (Return v w3 fs3)
              with r d g u None s have "fs3 = fs'"
                unfolding setup_hardware_injection_page_def Let_def
                by (simp add: split_def)
              with segment_files_return [OF Return] d g u None s show ?thesis
                by auto
            qed
          qed
        qed
      qed
    qed
  qed
  show ?thesis
    by (intro conjI c1 c2 c3 c4)
qed

text \<open>
  Claim C7 in an environment whose fetch fails and in one whose segment query fails: the
  routine raises the error of the failed call, and no node or edge is registered.
\<close>

theorem hwinj_page_abort_registers_nothing_witness:
  "raised (setup_hardware_injection_page fetch_fails_env example_workflow {} example_inputs
      ''cache'' ''INSPIRAL'' ''hwinj'' [''full_data'']) = Some IOError \<and>
   nodes (final_workflow (setup_hardware_injection_page fetch_fails_env example_workflow {}
      example_inputs ''cache'' ''INSPIRAL'' ''hwinj'' [''full_data''])) = [] \<and>
   dependencies (final_workflow (setup_hardware_injection_page fetch_fails_env
      example_workflow {} example_inputs ''cache'' ''INSPIRAL'' ''hwinj'' [''full_data''])) = []
   \<and>
   raised (setup_hardware_injection_page call_fails_env example_workflow {} example_inputs
      ''cache'' ''INSPIRAL'' ''hwinj'' [''full_data'']) = Some CalledProcessError \<and>
   nodes (final_workflow (setup_hardware_injection_page call_fails_env example_workflow {}
      example_inputs ''cache'' ''INSPIRAL'' ''hwinj'' [''full_data''])) = [] \<and>
   dependencies (final_workflow (setup_hardware_injection_page call_fails_env example_workflow {}
      example_inputs ''cache'' ''INSPIRAL'' ''hwinj'' [''full_data''])) = []"
proof -
  let ?c = "example_config(''workflow-hardware-injections'' \<mapsto>
              [''hwinj-definer-url'' \<mapsto> ''http://host/hwinj.xml'',
               ''hwinj-definer-file'' \<mapsto> ''hwinj/hwinj.xml''])"
  have p: "path_join ''hwinj'' (basename ''http://host/hwinj.xml'') = ''hwinj/hwinj.xml''"
    by (simp add: path_join_def basename_def)
  have l: "path_join ''hwinj'' ''logs'' = ''hwinj/logs''"
    by (simp add: path_join_def)
  have d1: "(if \<not> path_exists {} ''hwinj'' then makedirs fetch_fails_env {} ''hwinj''
             else Inr {}) = Inr {''hwinj''}"
    by (simp add: path_exists_def makedirs_def fetch_fails_env_def example_env_def
          parent_dirs_def)
  have g1: "get_opt_tags fetch_fails_env (cp example_workflow) ''workflow-hardware-injections''
              ''hwinj-definer-url'' [''full_data''] = Inr ''http://host/hwinj.xml''"
    by (simp add: fetch_fails_env_def example_env_def example_workflow_def example_config_def
          cp_get_def)
  have u1: "urlretrieve fetch_fails_env ''http://host/hwinj.xml''
              (path_join ''hwinj'' (basename ''http://host/hwinj.xml'')) {''hwinj''}
            = (Some IOError, {''hwinj''})"
    by (simp add: fetch_fails_env_def example_env_def)
  from d1 g1 u1
    hwinj_page_abort_registers_nothing [where e = fetch_fails_env and w = example_workflow and fs = "{}"
      and input_files = example_inputs and cache_filename = "''cache''"
      and inspiral_cachepattern = "''INSPIRAL''" and output_dir = "''hwinj''"
      and tags = "[''full_data'']"]
  have r1: "setup_hardware_injection_page fetch_fails_env example_workflow {} example_inputs
      ''cache'' ''INSPIRAL'' ''hwinj'' [''full_data'']
      = Raise IOError example_workflow {''hwinj''}"
    by blast
  have d2: "(if \<not> path_exists {} ''hwinj'' then makedirs call_fails_env {} ''hwinj''
             else Inr {}) = Inr {''hwinj''}"
    by (simp add: path_exists_def makedirs_def call_fails_env_def example_env_def
          parent_dirs_def)
  have g2: "get_opt_tags call_fails_env (cp example_workflow) ''workflow-hardware-injections''
              ''hwinj-definer-url'' [''full_data''] = Inr ''http://host/hwinj.xml''"
    by (simp add: call_fails_env_def example_env_def example_workflow_def example_config_def
          cp_get_def)
  have u2: "urlretrieve call_fails_env ''http://host/hwinj.xml''
              (path_join ''hwinj'' (basename ''http://host/hwinj.xml'')) {''hwinj''}
            = (None, {''hwinj'', ''hwinj/hwinj.xml''})"
    by (auto simp: call_fails_env_def example_env_def p)
  have s2: "cp_set (cp example_workflow) ''workflow-hardware-injections''
              ''hwinj-definer-file'' (path_join ''hwinj'' (basename ''http://host/hwinj.xml''))
            = Inr ?c"
    by (simp add: p cp_set_def example_workflow_def example_config_def)
  have l2: "(if \<not> path_exists {''hwinj'', ''hwinj/hwinj.xml''} (path_join ''hwinj'' ''logs'')
             then makedirs call_fails_env {''hwinj'', ''hwinj/hwinj.xml''}
                    (path_join ''hwinj'' ''logs'')
             else Inr {''hwinj'', ''hwinj/hwinj.xml''})
            = Inr {''hwinj'', ''hwinj/hwinj.xml'', ''hwinj/logs''}"
    by (auto simp: l path_exists_def makedirs_def call_fails_env_def example_env_def
          parent_dirs_def upt_rec nth_Cons')
  have x2: "cp_get ?c ''executables'' ''hardware_injection_page'' = Inr ''/usr/bin/hwinj_page''"
    by (simp add: cp_get_def example_config_def)
  have y2: "cp_get ?c ''workflow-segments'' ''segments-database-url'' = Inr ''https://segdb''"
    by (simp add: cp_get_def example_config_def)
  have m2: "make_external_call call_fails_env
        (hwinjsegFindCall (example_workflow\<lparr>cp := ?c\<rparr>) ''hwinj''
           (path_join ''hwinj'' (basename ''http://host/hwinj.xml''))
           ''/usr/bin/hwinj_page'' ''https://segdb'')
        (path_join ''hwinj'' ''logs'') ''hwinjseg-call''
        {''hwinj'', ''hwinj/hwinj.xml'', ''hwinj/logs''}
      = (Some CalledProcessError, {''hwinj'', ''hwinj/hwinj.xml'', ''hwinj/logs''})"
    by (simp add: call_fails_env_def example_env_def)
  from d2 g2 u2 s2 l2 x2 y2 m2
    hwinj_page_abort_registers_nothing [where e = call_fails_env and w = example_workflow and fs = "{}"
      and input_files = example_inputs and cache_filename = "''cache''"
      and inspiral_cachepattern = "''INSPIRAL''" and output_dir = "''hwinj''"
      and tags = "[''full_data'']"]
  have r2: "setup_hardware_injection_page call_fails_env example_workflow {} example_inputs
      ''cache'' ''INSPIRAL'' ''hwinj'' [''full_data'']
      = Raise CalledProcessError (example_workflow\<lparr>cp := ?c\<rparr>)
          {''hwinj'', ''hwinj/hwinj.xml'', ''hwinj/logs''}"
    by blast
  show ?thesis
    unfolding r1 r2 by (simp add: raised_def final_workflow_def example_workflow_def)
qed

section \<open>Directory creation\<close>

lemma raised_Raise: "raised (Raise err w fs) = Some err"
  by (simp add: raised_def)

lemma segment_files_raise_source:
  "path_exists fs (path_join output_dir ''logs'') \<Longrightarrow>
   get_hardware_injection_segment_files e w fs output_dir p = Raise err w' fs' \<Longrightarrow>
   cp_get (cp w) ''executables'' ''hardware_injection_page'' = Inl err \<or>
   cp_get (cp w) ''workflow-segments'' ''segments-database-url'' = Inl err \<or>
   (\<exists>call f. fst (make_external_call e call (path_join output_dir ''logs'')
                  ''hwinjseg-call'' f) = Some err)"
  unfolding get_hardware_injection_segment_files_def Let_def
  by (auto split: sum.splits prod.splits option.splits) (metis fst_conv)

lemma hwinj_raise_source:
  assumes "path_exists fs output_dir"
    and "setup_hardware_injection_page e w fs input_files cache_filename
           inspiral_cachepattern output_dir tags = Raise err w' fs'"
  shows "get_opt_tags e (cp w) ''workflow-hardware-injections'' ''hwinj-definer-url'' tags
           = Inl err \<or>
         (\<exists>u p f. fst (urlretrieve e u p f) = Some err) \<or>
         (\<exists>v. cp_set (cp w) ''workflow-hardware-injections'' ''hwinj-definer-file'' v
                = Inl err) \<or>
         (\<exists>c f p. raised (get_hardware_injection_segment_files e (w\<lparr>cp := c\<rparr>) f output_dir p)
                = Some err)"
  using assms
  unfolding setup_hardware_injection_page_def Let_def
  by (simp split: sum.splits prod.splits option.splits result.splits)
     (metis fst_conv raised_Raise)+

lemma makedirs_exists:
  "makedirs e fs d = Inr fs' \<Longrightarrow> path_exists fs' d"
  by (auto simp: makedirs_def path_exists_def split: if_splits)

text \<open>
  Claim C9. The directory creation that the three routines perform,
  \<^verbatim>\<open>if not os.path.exists(d): os.makedirs(d)\<close>, does not raise when the path exists,
  and after it has succeeded once the path exists and a second run succeeds too, whatever
  the system would then permit. For \<^verbatim>\<open>setup_summary_plots\<close>: it does not raise when
  the directory exists, and after a call that returned, a second call with the same
  directory does not raise and leaves the filesystem as it is. For
  \<^verbatim>\<open>get_hardware_injection_segment_files\<close> and
  \<^verbatim>\<open>setup_hardware_injection_page\<close>: when the directory exists, any error raised is
  the error of one of the later steps, not of the directory creation.
\<close>

theorem output_dir_creation_idempotent:
  "(path_exists fs d \<longrightarrow>
      (if \<not> path_exists fs d then makedirs e fs d else Inr fs) = Inr fs) \<and>
   (\<forall>fs'. (if \<not> path_exists fs d then makedirs e fs d else Inr fs) = Inr fs' \<longrightarrow>
      path_exists fs' d \<and>
      (if \<not> path_exists fs' d then makedirs e2 fs' d else Inr fs') = Inr fs') \<and>
   (path_exists fs d \<longrightarrow>
      raised (setup_summary_plots e w fs input_files cache_filename tmpltbank_cachepattern
        inspiral_cachepattern d tags) = None) \<and>
   (\<forall>fl w' fs'. setup_summary_plots e w fs input_files cache_filename tmpltbank_cachepattern
        inspiral_cachepattern d tags = Return fl w' fs' \<longrightarrow>
      raised (setup_summary_plots e2 w' fs' input_files2 cache_filename2
        tmpltbank_cachepattern2 inspiral_cachepattern2 d tags2) = None \<and>
      final_filesystem (setup_summary_plots e2 w' fs' input_files2 cache_filename2
        tmpltbank_cachepattern2 inspiral_cachepattern2 d tags2) = fs') \<and>
   (\<forall>err w' fs'. path_exists fs (path_join d ''logs'') \<and>
      get_hardware_injection_segment_files e w fs d p = Raise err w' fs' \<longrightarrow>
      cp_get (cp w) ''executables'' ''hardware_injection_page'' = Inl err \<or>
      cp_get (cp w) ''workflow-segments'' ''segments-database-url'' = Inl err \<or>
      (\<exists>call f. fst (make_external_call e call (path_join d ''logs'')
                     ''hwinjseg-call'' f) = Some err)) \<and>
   (\<forall>err w' fs'. path_exists fs d \<and>
      setup_hardware_injection_page e w fs input_files cache_filename
        inspiral_cachepattern d tags = Raise err w' fs' \<longrightarrow>
      get_opt_tags e (cp w) ''workflow-hardware-injections'' ''hwinj-definer-url'' tags
        = Inl err \<or>
      (\<exists>u q f. fst (urlretrieve e u q f) = Some err) \<or>
      (\<exists>v. cp_set (cp w) ''workflow-hardware-injections'' ''hwinj-definer-file'' v
             = Inl err) \<or>
      (\<exists>c f q. raised (get_hardware_injection_segment_files e (w\<lparr>cp := c\<rparr>) f d q)
             = Some err))"
proof -
  have c1: "path_exists fs d \<longrightarrow>
      (if \<not> path_exists fs d then makedirs e fs d else Inr fs) = Inr fs"
    by simp
  have post: "\<And>fs'. (if \<not> path_exists fs d then makedirs e fs d else Inr fs) = Inr fs' \<Longrightarrow>
      path_exists fs' d"
    by (auto dest: makedirs_exists split: if_splits)
  have c2: "\<forall>fs'. (if \<not> path_exists fs d then makedirs e fs d else Inr fs) = Inr fs' \<longrightarrow>
      path_exists fs' d \<and>
      (if \<not> path_exists fs' d then makedirs e2 fs' d else Inr fs') = Inr fs'"
  proof (intro allI impI)
    fix fs'
    assume "(if \<not> path_exists fs d then makedirs e fs d else Inr fs) = Inr fs'"
    then have "path_exists fs' d" by (rule post)
    then show "path_exists fs' d \<and>
      (if \<not> path_exists fs' d then makedirs e2 fs' d else Inr fs') = Inr fs'"
      by simp
  qed
  have c3: "path_exists fs d \<longrightarrow>
      raised (setup_summary_plots e w fs input_files cache_filename tmpltbank_cachepattern
        inspiral_cachepattern d tags) = None"
    by (simp add: setup_summary_plots_eq raised_def)
  have c4: "\<forall>fl w' fs'. setup_summary_plots e w fs input_files cache_filename
        tmpltbank_cachepattern inspiral_cachepattern d tags = Return fl w' fs' \<longrightarrow>
      raised (setup_summary_plots e2 w' fs' input_files2 cache_filename2
        tmpltbank_cachepattern2 inspiral_cachepattern2 d tags2) = None \<and>
      final_filesystem (setup_summary_plots e2 w' fs' input_files2 cache_filename2
        tmpltbank_cachepattern2 inspiral_cachepattern2 d tags2) = fs'"
  proof (intro allI impI)
    fix fl w' fs'
    assume "setup_summary_plots e w fs input_files cache_filename
        tmpltbank_cachepattern inspiral_cachepattern d tags = Return fl w' fs'"
    then have "(if \<not> path_exists fs d then makedirs e fs d else Inr fs) = Inr fs'"
      unfolding setup_summary_plots_eq
      by (cases "if \<not> path_exists fs d then makedirs e fs d else Inr fs") simp_all
    then have "path_exists fs' d" by (rule post)
    then show "raised (setup_summary_plots e2 w' fs' input_files2 cache_filename2
        tmpltbank_cachepattern2 inspiral_cachepattern2 d tags2) = None \<and>
      final_filesystem (setup_summary_plots e2 w' fs' input_files2 cache_filename2
        tmpltbank_cachepattern2 inspiral_cachepattern2 d tags2) = fs'"
      by (simp add: setup_summary_plots_eq raised_def final_filesystem_def)
  qed
  have c5: "\<forall>err w' fs'. path_exists fs (path_join d ''logs'') \<and>
      get_hardware_injection_segment_files e w fs d p = Raise err w' fs' \<longrightarrow>
      cp_get (cp w) ''executables'' ''hardware_injection_page'' = Inl err \<or>
      cp_get (cp w) ''workflow-segments'' ''segments-database-url'' = Inl err \<or>
      (\<exists>call f. fst (make_external_call e call (path_join d ''logs'')
                     ''hwinjseg-call'' f) = Some err)"
    using segment_files_raise_source [of fs d e w p] by blast
  have c6: "\<forall>err w' fs'. path_exists fs d \<and>
      setup_hardware_injection_page e w fs input_files cache_filename
        inspiral_cachepattern d tags = Raise err w' fs' \<longrightarrow>
      get_opt_tags e (cp w) ''workflow-hardware-injections'' ''hwinj-definer-url'' tags
        = Inl err \<or>
      (\<exists>u q f. fst (urlretrieve e u q f) = Some err) \<or>
      (\<exists>v. cp_set (cp w) ''workflow-hardware-injections'' ''hwinj-definer-file'' v
             = Inl err) \<or>
      (\<exists>c f q. raised (get_hardware_injection_segment_files e (w\<lparr>cp := c\<rparr>) f d q)
             = Some err)"
    using hwinj_raise_source [of fs d e w input_files cache_filename inspiral_cachepattern tags]
    by blast
  show ?thesis
    by (intro conjI c1 c2 c3 c4 c5 c6)
qed

text \<open>
  Claim C9 on two calls of the dispatcher: the first creates the directory, the second
  runs where the system permits no directory creation at all, and does not raise.
\<close>

theorem output_dir_creation_idempotent_witness:
  "path_exists
     (final_filesystem (setup_summary_plots example_env example_workflow {} example_inputs
        ''cache'' ''TMPLTBANK'' ''INSPIRAL'' ''plots'' [''full_data''])) ''plots'' \<and>
   raised (setup_summary_plots mkdir_denied_env
     (final_workflow (setup_summary_plots example_env example_workflow {} example_inputs
        ''cache'' ''TMPLTBANK'' ''INSPIRAL'' ''plots'' [''full_data'']))
     (final_filesystem (setup_summary_plots example_env example_workflow {} example_inputs
        ''cache'' ''TMPLTBANK'' ''INSPIRAL'' ''plots'' [''full_data'']))
     example_inputs ''cache'' ''TMPLTBANK'' ''INSPIRAL'' ''plots'' [''full_data'']) = None"
proof -
  obtain fl w' fs' where r: "setup_summary_plots example_env example_workflow {} example_inputs
      ''cache'' ''TMPLTBANK'' ''INSPIRAL'' ''plots'' [''full_data''] = Return fl w' fs'"
    using example_summary_plots_returns by blast
  have fs': "fs' = {''plots''}"
    using r by (simp add: setup_summary_plots_eq makedirs_def path_exists_def example_env_def
                  parent_dirs_def)
  from r output_dir_creation_idempotent [where e = example_env and w = example_workflow and fs = "{}"
      and input_files = example_inputs and cache_filename = "''cache''"
      and tmpltbank_cachepattern = "''TMPLTBANK''" and inspiral_cachepattern = "''INSPIRAL''"
      and d = "''plots''" and tags = "[''full_data'']" and ?e2.0 = mkdir_denied_env
      and ?input_files2.0 = example_inputs and ?cache_filename2.0 = "''cache''"
      and ?tmpltbank_cachepattern2.0 = "''TMPLTBANK''"
      and ?inspiral_cachepattern2.0 = "''INSPIRAL''" and ?tags2.0 = "[''full_data'']"]
  have "raised (setup_summary_plots mkdir_denied_env w' fs' example_inputs ''cache''
      ''TMPLTBANK'' ''INSPIRAL'' ''plots'' [''full_data'']) = None"
    by blast
  then show ?thesis
    unfolding r final_workflow_def final_filesystem_def result.case
    by (simp add: fs' path_exists_def)
qed

section \<open>Detector combinations\<close>

lemma fold_snoc: "fold (\<lambda>x acc. acc @ [x]) xs acc = acc @ xs"
  by (induction xs arbitrary: acc) simp_all

lemma fold_extend: "fold (\<lambda>n acc. acc @ g n) ns acc = acc @ concat (map g ns)"
  by (induction ns arbitrary: acc) simp_all

lemma ifo_combos_eq:
  "ifo_combos ds = concat (map (\<lambda>n. combinations ds (n + 2)) [0 ..< length ds + 1])"
  unfolding ifo_combos_def fold_snoc
  by (simp only: fold_extend append_Nil)

lemma length_combinations: "length (combinations xs r) = length xs choose r"
proof (induction xs arbitrary: r)
  case Nil
  show ?case by (cases r) simp_all
next
  case (Cons x xs)
  show ?case by (cases r) (simp_all add: Cons.IH)
qed

lemma set_combinations: "set (combinations xs r) = {ys. subseq ys xs \<and> length ys = r}"
proof (induction xs arbitrary: r)
  case Nil
  show ?case by (cases r) auto
next
  case (Cons x xs)
  show ?case
  proof (cases r)
    case 0
    then show ?thesis by auto
  next
    case (Suc k)
    show ?thesis
    proof (intro set_eqI iffI)
      fix ys
      assume "ys \<in> set (combinations (x # xs) r)"
      then show "ys \<in> {ys. subseq ys (x # xs) \<and> length ys = r}"
        using Suc by (auto simp: Cons.IH)
    next
      fix ys
      assume "ys \<in> {ys. subseq ys (x # xs) \<and> length ys = r}"
      then have s: "subseq ys (x # xs)" and l: "length ys = Suc k" using Suc by auto
      from l obtain y ys' where ys: "ys = y # ys'" by (cases ys) auto
      show "ys \<in> set (combinations (x # xs) r)"
      proof (cases "y = x")
        case True
        with s ys have "subseq ys' xs" by simp
        with l ys True Suc show ?thesis by (simp add: Cons.IH)
      next
        case False
        with s ys have "subseq ys xs" by simp
        with l Suc show ?thesis by (simp add: Cons.IH)
      qed
    qed
  qed
qed

lemma length_ifo_combos:
  "length (ifo_combos ds) = (\<Sum>i = 2..length ds. length ds choose i)"
proof -
  let ?k = "length ds"
  have "length (ifo_combos ds) = (\<Sum>n\<leftarrow>[0 ..< ?k + 1]. ?k choose (n + 2))"
    by (simp add: ifo_combos_eq length_concat comp_def length_combinations)
  also have "\<dots> = (\<Sum>n = 0 ..< ?k + 1. ?k choose (n + 2))"
    by (simp add: interv_sum_list_conv_sum_set_nat)
  also have "\<dots> = (\<Sum>i = 2 ..< ?k + 3. ?k choose i)"
    using sum.shift_bounds_nat_ivl [of "\<lambda>i. ?k choose i" 0 2 "?k + 1"]
    by (simp add: numeral_3_eq_3 numeral_2_eq_2)
  also have "\<dots> = (\<Sum>i = 2..?k. ?k choose i)"
    by (rule sum.mono_neutral_right) (auto simp: binomial_eq_0)
  finally show ?thesis .
qed

lemma set_ifo_combos: "set (ifo_combos ds) = {c. subseq c ds \<and> 2 \<le> length c}"
proof (intro set_eqI iffI)
  fix c
  assume "c \<in> set (ifo_combos ds)"
  then show "c \<in> {c. subseq c ds \<and> 2 \<le> length c}"
    by (auto simp: ifo_combos_eq set_combinations)
next
  fix c
  assume "c \<in> {c. subseq c ds \<and> 2 \<le> length c}"
  then have s: "subseq c ds" and l: "2 \<le> length c" by auto
  from s have "length c \<le> length ds" by (rule list_emb_length)
  with l have "length c - 2 < length ds + 1" "length c - 2 + 2 = length c" by auto
  with s show "c \<in> set (ifo_combos ds)"
    unfolding ifo_combos_eq by (auto simp: set_combinations intro!: bexI [of _ "length c - 2"])
qed

lemma example_ifo_combos:
  "ifo_combos [''H1'', ''L1'', ''V1''] =
     [[''H1'', ''L1''], [''H1'', ''V1''], [''L1'', ''V1''], [''H1'', ''L1'', ''V1'']]"
  by code_simp

lemma example_ifo_combos2: "ifo_combos [''H1'', ''L1''] = [[''H1'', ''L1'']]"
  by code_simp

lemma filter_flag_map_Nil:
  "(\<And>x. g x \<noteq> flag) \<Longrightarrow> filter (\<lambda>p. fst p = flag) (map (\<lambda>x. (g x, v x)) xs) = []"
  by (induction xs) simp_all

lemma triggers_flag_suffix: "suffix ''-triggers'' (''--'' @ s @ ''-triggers'')"
  by (metis suffix_appendI suffix_order.order_refl)

lemma triggers_neq_ifo_times: "''--'' @ s @ ''-triggers'' \<noteq> ''--ifo-times''"
proof
  assume "''--'' @ s @ ''-triggers'' = ''--ifo-times''"
  then have "take 4 (rev (''--'' @ s @ ''-triggers'')) = take 4 (rev ''--ifo-times'')"
    by (rule arg_cong)
  then show False by simp
qed

lemma triggers_neq_ifo_tag: "''--'' @ s @ ''-triggers'' \<noteq> ''--ifo-tag''"
proof
  assume "''--'' @ s @ ''-triggers'' = ''--ifo-tag''"
  then have "take 1 (rev (''--'' @ s @ ''-triggers'')) = take 1 (rev ''--ifo-tag'')"
    by (rule arg_cong)
  then show False by simp
qed

lemma triggers_neq_user_tag: "''--'' @ s @ ''-triggers'' \<noteq> ''--user-tag''"
proof
  assume "''--'' @ s @ ''-triggers'' = ''--user-tag''"
  then have "take 1 (rev (''--'' @ s @ ''-triggers'')) = take 1 (rev ''--user-tag'')"
    by (rule arg_cong)
  then show False by simp
qed

lemma thinca_ifo_times:
  "opt_values ''--ifo-times'' (plotthinca_node job window cf cpat spat od i x)
     = [Some (StrVal (concat (snd x)))]"
  by (simp add: opt_values_def plotthinca_node_def filter_flag_map_Nil triggers_neq_ifo_times)

lemma thinca_ifo_tag:
  "opt_values ''--ifo-tag'' (plotthinca_node job window cf cpat spat od i x)
     = [Some (StrVal (''SECOND_'' @ concat (snd x)))]"
  by (simp add: opt_values_def plotthinca_node_def filter_flag_map_Nil triggers_neq_ifo_tag)

lemma thinca_user_tag:
  "opt_values ''--user-tag'' (plotthinca_node job window cf cpat spat od i x)
     = [Some (StrVal (upper (fst x) @ ''_SUMMARY_PLOTS''))]"
  by (simp add: opt_values_def plotthinca_node_def filter_flag_map_Nil triggers_neq_user_tag)

lemma map_enumerate_prop:
  "(\<And>i x. g (f i x) = h x) \<Longrightarrow>
   map g (map (\<lambda>(i, x). f i x) (enumerate k xs)) = map h xs"
  by (induction xs arbitrary: k) simp_all

lemma thinca_created:
  "nodes_created w (snd (setup_plotthinca w input_files cf cpat spat od tags)) =
     map (\<lambda>(i, x). plotthinca_node
            (Executable (cp w) ''plotthinca'' ''vanilla'' (ifos w) od tags)
            (analysis_time w) cf cpat spat od i x)
       (enumerate (next_dax_node w) (List.product tags (ifo_combos (ifos w))))"
  by (simp add: setup_plotthinca_eq nodes_created_stage)

text \<open>
  Claim C3. For a detector list of size \<open>k\<close>, the combinations that
  \<^verbatim>\<open>setup_plotthinca\<close> enumerates are \<open>\<Sum>i=2..k. C(k,i)\<close> in number and are exactly
  the subsequences of the detector list with at least two elements; the routine creates
  one node per tag and combination; the \<^verbatim>\<open>--ifo-times\<close> values of the created nodes,
  in order, are determined by the tags and the detector list alone, so two calls with the
  same detector list and tags enumerate the subsets in the same order whatever else
  differs.
\<close>

theorem thinca_detector_subsets:
  "length (ifo_combos ds) = (\<Sum>i = 2..length ds. length ds choose i) \<and>
   set (ifo_combos ds) = {c. subseq c ds \<and> 2 \<le> length c} \<and>
   length (nodes_created w (snd (setup_plotthinca w input_files cache_filename
      coinc_cachepattern slide_cachepattern output_dir tags)))
     = length tags * (\<Sum>i = 2..length (ifos w). length (ifos w) choose i) \<and>
   map (opt_values ''--ifo-times'') (nodes_created w (snd (setup_plotthinca w input_files
      cache_filename coinc_cachepattern slide_cachepattern output_dir tags)))
     = map (\<lambda>x. [Some (StrVal (concat (snd x)))]) (List.product tags (ifo_combos (ifos w))) \<and>
   (ifos w2 = ifos w \<longrightarrow>
      map (opt_values ''--ifo-times'') (nodes_created w2 (snd (setup_plotthinca w2
         input_files2 cache_filename2 coinc_cachepattern2 slide_cachepattern2 output_dir2
         tags)))
      = map (opt_values ''--ifo-times'') (nodes_created w (snd (setup_plotthinca w input_files
         cache_filename coinc_cachepattern slide_cachepattern output_dir tags))))"
proof -
  have times: "\<And>w input_files cf cpat spat od.
     map (opt_values ''--ifo-times'') (nodes_created w (snd (setup_plotthinca w input_files
        cf cpat spat od tags)))
     = map (\<lambda>x. [Some (StrVal (concat (snd x)))]) (List.product tags (ifo_combos (ifos w)))"
    unfolding thinca_created by (rule map_enumerate_prop) (rule thinca_ifo_times)
  have count: "length (nodes_created w (snd (setup_plotthinca w input_files cache_filename
      coinc_cachepattern slide_cachepattern output_dir tags)))
     = length tags * (\<Sum>i = 2..length (ifos w). length (ifos w) choose i)"
    by (simp add: thinca_created length_ifo_combos)
  show ?thesis
    by (simp only: length_ifo_combos set_ifo_combos count times) simp
qed

text \<open>
  Claim C3 on two different workflows with the same two detectors: both calls give the
  one subset H1L1.
\<close>

theorem thinca_detector_subsets_witness:
  "ifos busy_workflow = ifos example_workflow \<and>
   map (opt_values ''--ifo-times'') (nodes_created busy_workflow (snd (setup_plotthinca
      busy_workflow [] ''other_cache'' ''C'' ''S'' ''elsewhere'' [''full_data''])))
   = map (opt_values ''--ifo-times'') (nodes_created example_workflow (snd (setup_plotthinca
      example_workflow example_inputs ''cache'' ''COINC'' ''SLIDE'' ''plots'' [''full_data''])))
   \<and>
   map (opt_values ''--ifo-times'') (nodes_created example_workflow (snd (setup_plotthinca
      example_workflow example_inputs ''cache'' ''COINC'' ''SLIDE'' ''plots'' [''full_data''])))
   = [[Some (StrVal ''H1L1'')]]"
proof -
  have same: "ifos busy_workflow = ifos example_workflow"
    by (simp add: busy_workflow_def example_workflow_def)
  note c3 = thinca_detector_subsets [where w = example_workflow and ?w2.0 = busy_workflow
      and input_files = example_inputs and cache_filename = "''cache''"
      and coinc_cachepattern = "''COINC''" and slide_cachepattern = "''SLIDE''"
      and output_dir = "''plots''" and tags = "[''full_data'']"
      and ?input_files2.0 = "[]" and ?cache_filename2.0 = "''other_cache''"
      and ?coinc_cachepattern2.0 = "''C''" and ?slide_cachepattern2.0 = "''S''"
      and ?output_dir2.0 = "''elsewhere''" and ds = "[''H1'', ''L1'']"]
  have ex: "ifos example_workflow = [''H1'', ''L1'']"
    by (simp add: example_workflow_def)
  from c3 same have a: "map (opt_values ''--ifo-times'') (nodes_created busy_workflow
      (snd (setup_plotthinca busy_workflow [] ''other_cache'' ''C'' ''S'' ''elsewhere''
         [''full_data''])))
   = map (opt_values ''--ifo-times'') (nodes_created example_workflow (snd (setup_plotthinca
      example_workflow example_inputs ''cache'' ''COINC'' ''SLIDE'' ''plots'' [''full_data''])))"
    by blast
  from c3 have b: "map (opt_values ''--ifo-times'') (nodes_created example_workflow
      (snd (setup_plotthinca example_workflow example_inputs ''cache'' ''COINC'' ''SLIDE''
         ''plots'' [''full_data''])))
     = map (\<lambda>x. [Some (StrVal (concat (snd x)))])
         (List.product [''full_data''] (ifo_combos (ifos example_workflow)))"
    by blast
  have "map (\<lambda>x. [Some (StrVal (concat (snd x)))])
         (List.product [''full_data''] (ifo_combos (ifos example_workflow)))
     = [[Some (StrVal ''H1L1'')]]"
    unfolding ex example_ifo_combos2 by simp
  with same a b show ?thesis by simp
qed

text \<open>
  Claim C4. With the detectors H1, L1, V1 and the single tag \<^verbatim>\<open>full_data\<close>,
  \<^verbatim>\<open>setup_plotthinca\<close> enumerates the subsets H1L1, H1V1, L1V1, H1L1V1, creates exactly
  four nodes, and the \<^verbatim>\<open>--ifo-tag\<close> value of each is \<^verbatim>\<open>SECOND_\<close> followed by the
  concatenated detector identifiers of its subset.
\<close>

theorem thinca_three_detectors:
  "ifo_combos [''H1'', ''L1'', ''V1''] =
     [[''H1'', ''L1''], [''H1'', ''V1''], [''L1'', ''V1''], [''H1'', ''L1'', ''V1'']] \<and>
   length (nodes_created (w\<lparr>ifos := [''H1'', ''L1'', ''V1'']\<rparr>)
     (snd (setup_plotthinca (w\<lparr>ifos := [''H1'', ''L1'', ''V1'']\<rparr>) input_files cache_filename
        coinc_cachepattern slide_cachepattern output_dir [''full_data'']))) = 4 \<and>
   map (opt_values ''--ifo-tag'') (nodes_created (w\<lparr>ifos := [''H1'', ''L1'', ''V1'']\<rparr>)
     (snd (setup_plotthinca (w\<lparr>ifos := [''H1'', ''L1'', ''V1'']\<rparr>) input_files cache_filename
        coinc_cachepattern slide_cachepattern output_dir [''full_data''])))
   = [[Some (StrVal ''SECOND_H1L1'')], [Some (StrVal ''SECOND_H1V1'')],
      [Some (StrVal ''SECOND_L1V1'')], [Some (StrVal ''SECOND_H1L1V1'')]]"
proof -
  let ?w = "w\<lparr>ifos := [''H1'', ''L1'', ''V1'']\<rparr>"
  have "map (opt_values ''--ifo-tag'') (nodes_created ?w
     (snd (setup_plotthinca ?w input_files cache_filename
        coinc_cachepattern slide_cachepattern output_dir [''full_data''])))
     = map (\<lambda>x. [Some (StrVal (''SECOND_'' @ concat (snd x)))])
         (List.product [''full_data''] (ifo_combos (ifos ?w)))"
    unfolding thinca_created by (rule map_enumerate_prop) (rule thinca_ifo_tag)
  then show ?thesis
    by (simp add: example_ifo_combos thinca_created)
qed

section \<open>Case normalization of tags and detector flags\<close>

lemma injections_flag_suffix: "suffix ''-injections'' (''--'' @ s @ ''-injections'')"
  by (metis suffix_appendI suffix_order.order_refl)

lemma injections_neq_user_tag: "''--'' @ s @ ''-injections'' \<noteq> ''--user-tag''"
proof
  assume "''--'' @ s @ ''-injections'' = ''--user-tag''"
  then have "take 1 (rev (''--'' @ s @ ''-injections'')) = take 1 (rev ''--user-tag'')"
    by (rule arg_cong)
  then show False by simp
qed

lemma filter_suffix_map:
  "(\<And>x. P (g x)) \<Longrightarrow> filter P (map g xs) = map g xs"
  by (induction xs) simp_all

lemma thinca_trigger_flags:
  "filter (suffix ''-triggers'') (flags (plotthinca_node job window cf cpat spat od i x))
     = map (\<lambda>ifo. ''--'' @ lower ifo @ ''-triggers'') (snd x)"
proof -
  have "filter (suffix ''-triggers'') (map (\<lambda>ifo. ''--'' @ lower ifo @ ''-triggers'') (snd x))
      = map (\<lambda>ifo. ''--'' @ lower ifo @ ''-triggers'') (snd x)"
    by (rule filter_suffix_map) (rule triggers_flag_suffix)
  then show ?thesis
    by (simp add: flags_def plotthinca_node_def comp_def suffix_to_prefix)
qed

lemma hwinj_injection_flags:
  "filter (suffix ''-injections'')
     (flags (hwinjpage_node job window defpath od cf ipat detectors outpath i))
     = ''--analyze-injections'' # map (\<lambda>ifo. ''--'' @ lower ifo @ ''-injections'') detectors"
proof -
  have "filter (suffix ''-injections'')
          (map (\<lambda>ifo. ''--'' @ lower ifo @ ''-injections'') detectors)
      = map (\<lambda>ifo. ''--'' @ lower ifo @ ''-injections'') detectors"
    by (rule filter_suffix_map) (rule injections_flag_suffix)
  then show ?thesis
    by (simp add: flags_def hwinjpage_node_def comp_def suffix_to_prefix)
qed

lemma hwinj_user_tag:
  "opt_values ''--user-tag''
     (hwinjpage_node job window defpath od cf ipat detectors outpath i) = []"
  by (simp add: opt_values_def hwinjpage_node_def filter_flag_map_Nil injections_neq_user_tag)

lemma plotinspiral_user_tag:
  "opt_values ''--user-tag'' (plotinspiral_node job window cf ipat od i x)
     = [Some (StrVal (upper (fst x) @ ''_SUMMARY_PLOTS''))]"
  by (simp add: opt_values_def plotinspiral_node_def)

lemma plotnumtemplates_user_tag:
  "opt_values ''--user-tag'' (plotnumtemplates_node job window cf tpat od i tag)
     = [Some (StrVal (upper tag @ ''_SUMMARY_PLOTS''))]"
  by (simp add: opt_values_def plotnumtemplates_node_def)

lemma plotinspiralrange_user_tag:
  "opt_values ''--user-tag'' (plotinspiralrange_node job window cf tpat ipat od i tag)
     = [Some (StrVal (upper tag @ ''_SUMMARY_PLOTS''))]"
  by (simp add: opt_values_def plotinspiralrange_node_def)

text \<open>
  Claim C8. In each of the four plot routines every created node carries exactly one
  \<^verbatim>\<open>--user-tag\<close> option, whose value is the upper-cased tag of the node followed by
  \<^verbatim>\<open>_SUMMARY_PLOTS\<close>. The per-detector flags use the lower-cased detector identifier:
  the flags of a \<^verbatim>\<open>plotthinca\<close> node that end in \<^verbatim>\<open>-triggers\<close> are
  \<^verbatim>\<open>--<ifo.lower()>-triggers\<close> for the detectors of its subset, in order, and the
  flags of the hardware-injection node that end in \<^verbatim>\<open>-injections\<close> are
  \<^verbatim>\<open>--analyze-injections\<close> and \<^verbatim>\<open>--<ifo.lower()>-injections\<close> for the detectors
  of the workflow, in order. The hardware-injection node carries no \<^verbatim>\<open>--user-tag\<close>.
\<close>

theorem tag_case_normalization:
  "map (opt_values ''--user-tag'') (nodes_created w (snd (setup_plotinspiral w input_files
      cache_filename inspiral_cachepattern output_dir tags)))
     = map (\<lambda>x. [Some (StrVal (upper (fst x) @ ''_SUMMARY_PLOTS''))])
         (List.product tags (ifos w)) \<and>
   map (opt_values ''--user-tag'') (nodes_created w (snd (setup_plotnumtemplates w input_files
      cache_filename tmpltbank_cachepattern output_dir tags)))
     = map (\<lambda>tag. [Some (StrVal (upper tag @ ''_SUMMARY_PLOTS''))]) tags \<and>
   map (opt_values ''--user-tag'') (nodes_created w (snd (setup_plotthinca w input_files
      cache_filename coinc_cachepattern slide_cachepattern output_dir tags)))
     = map (\<lambda>x. [Some (StrVal (upper (fst x) @ ''_SUMMARY_PLOTS''))])
         (List.product tags (ifo_combos (ifos w))) \<and>
   map (opt_values ''--user-tag'') (nodes_created w (snd (setup_plotinspiralrange w
      input_files cache_filename tmpltbank_cachepattern inspiral_cachepattern output_dir tags)))
     = map (\<lambda>tag. [Some (StrVal (upper tag @ ''_SUMMARY_PLOTS''))]) tags \<and>
   map (\<lambda>n. filter (suffix ''-triggers'') (flags n)) (nodes_created w (snd (setup_plotthinca
      w input_files cache_filename coinc_cachepattern slide_cachepattern output_dir tags)))
     = map (\<lambda>x. map (\<lambda>ifo. ''--'' @ lower ifo @ ''-triggers'') (snd x))
         (List.product tags (ifo_combos (ifos w))) \<and>
   (\<forall>fl w' fs'. setup_hardware_injection_page e w fs input_files cache_filename
        inspiral_cachepattern output_dir tags = Return fl w' fs' \<longrightarrow>
      map (\<lambda>n. filter (suffix ''-injections'') (flags n)) (nodes_created w w')
        = [''--analyze-injections''
             # map (\<lambda>ifo. ''--'' @ lower ifo @ ''-injections'') (ifos w)] \<and>
      map (opt_values ''--user-tag'') (nodes_created w w') = [[]])"
proof -
  have c1: "map (opt_values ''--user-tag'') (nodes_created w (snd (setup_plotinspiral w
      input_files cache_filename inspiral_cachepattern output_dir tags)))
     = map (\<lambda>x. [Some (StrVal (upper (fst x) @ ''_SUMMARY_PLOTS''))])
         (List.product tags (ifos w))"
    unfolding setup_plotinspiral_eq snd_conv nodes_created_stage [OF refl]
    by (rule map_enumerate_prop) (rule plotinspiral_user_tag)
  have c2: "map (opt_values ''--user-tag'') (nodes_created w (snd (setup_plotnumtemplates w
      input_files cache_filename tmpltbank_cachepattern output_dir tags)))
     = map (\<lambda>tag. [Some (StrVal (upper tag @ ''_SUMMARY_PLOTS''))]) tags"
    unfolding setup_plotnumtemplates_eq snd_conv nodes_created_stage [OF refl]
    by (rule map_enumerate_prop) (rule plotnumtemplates_user_tag)
  have c3: "map (opt_values ''--user-tag'') (nodes_created w (snd (setup_plotthinca w
      input_files cache_filename coinc_cachepattern slide_cachepattern output_dir tags)))
     = map (\<lambda>x. [Some (StrVal (upper (fst x) @ ''_SUMMARY_PLOTS''))])
         (List.product tags (ifo_combos (ifos w)))"
    unfolding thinca_created by (rule map_enumerate_prop) (rule thinca_user_tag)
  have c4: "map (opt_values ''--user-tag'') (nodes_created w (snd (setup_plotinspiralrange w
      input_files cache_filename tmpltbank_cachepattern inspiral_cachepattern output_dir tags)))
     = map (\<lambda>tag. [Some (StrVal (upper tag @ ''_SUMMARY_PLOTS''))]) tags"
    unfolding setup_plotinspiralrange_eq snd_conv nodes_created_stage [OF refl]
    by (rule map_enumerate_prop) (rule plotinspiralrange_user_tag)
  have c5: "map (\<lambda>n. filter (suffix ''-triggers'') (flags n)) (nodes_created w
      (snd (setup_plotthinca w input_files cache_filename coinc_cachepattern
         slide_cachepattern output_dir tags)))
     = map (\<lambda>x. map (\<lambda>ifo. ''--'' @ lower ifo @ ''-triggers'') (snd x))
         (List.product tags (ifo_combos (ifos w)))"
    unfolding thinca_created by (rule map_enumerate_prop) (rule thinca_trigger_flags)
  have c6: "\<forall>fl w' fs'. setup_hardware_injection_page e w fs input_files cache_filename
        inspiral_cachepattern output_dir tags = Return fl w' fs' \<longrightarrow>
      map (\<lambda>n. filter (suffix ''-injections'') (flags n)) (nodes_created w w')
        = [''--analyze-injections''
             # map (\<lambda>ifo. ''--'' @ lower ifo @ ''-injections'') (ifos w)] \<and>
      map (opt_values ''--user-tag'') (nodes_created w w') = [[]]"
    using hwinj_cases [of e w fs input_files cache_filename inspiral_cachepattern output_dir tags]
    by (elim disjE exE conjE)
       (simp_all add: nodes_created_stage hwinj_injection_flags hwinj_user_tag)
  show ?thesis
    by (intro conjI c1 c2 c3 c4 c5 c6)
qed

text \<open>
  Claim C8 on the hardware-injection node of the example workflow, whose detectors are
  H1 and L1.
\<close>

theorem tag_case_normalization_witness:
  "map (\<lambda>n. filter (suffix ''-injections'') (flags n))
     (nodes_created example_workflow (final_workflow
        (setup_hardware_injection_page example_env example_workflow {} example_inputs
           ''cache'' ''INSPIRAL'' ''hwinj'' [])))
   = [[''--analyze-injections'', ''--h1-injections'', ''--l1-injections'']]"
proof -
  obtain w' fs' where r: "setup_hardware_injection_page example_env example_workflow {}
      example_inputs ''cache'' ''INSPIRAL'' ''hwinj'' [] = Return [] w' fs'"
    using example_hwinj_result by blast
  with tag_case_normalization [where e = example_env and w = example_workflow and fs = "{}"
      and input_files = example_inputs and cache_filename = "''cache''"
      and inspiral_cachepattern = "''INSPIRAL''" and output_dir = "''hwinj''"
      and tags = "[]"]
  have "map (\<lambda>n. filter (suffix ''-injections'') (flags n)) (nodes_created example_workflow w')
        = [''--analyze-injections''
             # map (\<lambda>ifo. ''--'' @ lower ifo @ ''-injections'') (ifos example_workflow)]"
    by blast
  moreover have "lower ''H1'' = ''h1''" "lower ''L1'' = ''l1''"
    by code_simp+
  ultimately show ?thesis
    unfolding r final_workflow_def result.case
    by (simp add: example_workflow_def)
qed

end
